theory Spec2Isabelle
  imports Complex_Main "HOL-Library.Monad_Syntax"
begin

section \<open>JavaScript numbers and dates\<close>

text \<open>
  A JavaScript \<^verbatim>\<open>number\<close> is an IEEE-754 binary64 value. The finite numbers are
  modelled as the rationals they denote, and every arithmetic operator of the source
  (\<^verbatim>\<open>+\<close>, \<^verbatim>\<open>*\<close>, \<^verbatim>\<open>/\<close>) is the exact operation followed by \<open>fl\<close>, rounding to the
  nearest binary64 value with ties to the even significand. The exponent range is left
  unbounded: overflow to \<^verbatim>\<open>Infinity\<close>, subnormal numbers, \<^verbatim>\<open>NaN\<close> and the sign of zero
  are outside the model. A decimal literal of the source such as \<^verbatim>\<open>0.09\<close> is
  \<open>fl (9 / 100)\<close>.
\<close>

function bitlen :: "int \<Rightarrow> int" where
  "bitlen n = (if n \<le> 0 then 0 else 1 + bitlen (n div 2))"
  by pat_completeness auto
termination
  by (relation "measure nat") auto

declare bitlen.simps [simp del]

definition pow2 :: "int \<Rightarrow> rat" where
  "pow2 e = (if 0 \<le> e then 2 ^ nat e else 1 / 2 ^ nat (- e))"

text \<open>The binary exponent \<open>e\<close> of a non-zero \<open>x\<close>: \<open>2 ^ e \<le> \<bar>x\<bar> < 2 ^ (e + 1)\<close>.\<close>

definition exponent :: "rat \<Rightarrow> int" where
  "exponent x =
     (if 1 \<le> \<bar>x\<bar> then bitlen \<lfloor>\<bar>x\<bar>\<rfloor> - 1
      else (let k = bitlen \<lfloor>1 / \<bar>x\<bar>\<rfloor> - 1
            in if \<bar>x\<bar> = pow2 (- k) then - k else - k - 1))"

definition roundTiesToEven :: "rat \<Rightarrow> int" where
  "roundTiesToEven m =
     (let f = \<lfloor>m\<rfloor>; d = m - of_int f
      in if d < 1 / 2 then f else if 1 / 2 < d then f + 1 else if even f then f else f + 1)"

definition fl :: "rat \<Rightarrow> rat" where
  "fl x = (if x = 0 then 0
           else (let u = pow2 (exponent x - 52) in of_int (roundTiesToEven (x / u)) * u))"

text \<open>
  \<^verbatim>\<open>Math.round\<close> returns the nearest integer, a tie going to the larger one; its result
  is always a binary64 value. \<^verbatim>\<open>Number.isInteger\<close> holds of the whole numbers.
\<close>

definition Math_round :: "rat \<Rightarrow> rat" where
  "Math_round x = of_int \<lfloor>x + 1 / 2\<rfloor>"

definition Number_isInteger :: "rat \<Rightarrow> bool" where
  "Number_isInteger x = (of_int \<lfloor>x\<rfloor> = x)"

text \<open>
  A \<^verbatim>\<open>Date\<close> is its time value, a whole number of milliseconds; \<^verbatim>\<open>getTime()\<close> is
  \<open>of_int\<close>, and \<^verbatim>\<open>new Date(v)\<close> drops the fraction of \<open>v\<close> (towards zero). Dates are
  treated as immutable values, and time values stay inside the range of valid dates.
  Each \<^verbatim>\<open>new Date()\<close> of the source is an explicit argument: the clock reading at
  that point.
\<close>

definition Date_new :: "rat \<Rightarrow> int" where
  "Date_new v = (if 0 \<le> v then \<lfloor>v\<rfloor> else \<lceil>v\<rceil>)"

section \<open>Data model (domain/models.ts)\<close>

text \<open>
  Arrays and cart items are JavaScript objects with identity: an array is an address into
  \<open>arrays\<close>, holding the addresses of its items in \<open>objects\<close> (see \<open>World\<close> below).
  A \<open>Cart\<close> value is one cart object's own fields; the object spread \<^verbatim>\<open>{ ...cart }\<close>
  copies exactly these, so the copy's \<open>items\<close> is the same array. Products and metadata
  are never written by the code and are kept as values.
\<close>

type_synonym ref = nat

record Product =
  productId :: string
  name :: string
  description :: "string option"
  price :: rat
  category :: string

record CartItem =
  itemId :: string
  product :: Product
  quantity :: rat
  unitPrice :: rat
  totalPrice :: rat
  addedAt :: int

record CartMetadata =
  customerId :: "string option"
  channel :: "string option"
  source :: "string option"

record Cart =
  cartId :: string
  items :: ref
  subtotal :: rat
  tax :: rat
  cartTotal :: rat
  createdAt :: int
  updatedAt :: int
  expiresAt :: int
  metadata :: "CartMetadata option"

record AddItemRequest =
  req_product :: Product
  req_quantity :: rat

section \<open>Errors (domain/errors/index.ts)\<close>

text \<open>
  The message of a \<open>ValidationError\<close> is kept as the template the source fills in,
  with its parameters, instead of the formatted string.
\<close>

datatype Message =
    InvalidCartIdFormat
  | QuantityMustBeInteger
  | QuantityMustBeBetween rat rat
  | TotalQuantityWouldExceed string rat
  | ProductIdRequired
  | ProductNameRequired
  | ProductPriceMustBePositive
  | InvalidProductCategory string

datatype DomainError =
    CartExpiredError string
  | ResourceNotFoundError string string
  | ValidationError Message
  | ConflictError Message

fun statusCode :: "DomainError \<Rightarrow> nat" where
  "statusCode (CartExpiredError _) = 410"
| "statusCode (ResourceNotFoundError _ _) = 404"
| "statusCode (ValidationError _) = 400"
| "statusCode (ConflictError _) = 409"

section \<open>The store (SalesforceCartClientMock)\<close>

text \<open>
  The state of the store is its map and its TTL. The singleton accessor, the timer handle
  and the log line of the clean-up are left out; a firing of the timer is
  \<open>cleanupExpiredCarts\<close> at some reading of the clock.
\<close>

record CartEntry =
  entry_cart :: Cart
  entry_createdAt :: int

record SalesforceCartClientMock =
  carts :: "string \<rightharpoonup> CartEntry"
  ttlMinutes :: rat

definition expirationTime :: "rat \<Rightarrow> CartEntry \<Rightarrow> int" where
  "expirationTime ttl entry =
     Date_new (fl (of_int (entry_createdAt entry) + fl (fl (ttl * 60) * 1000)))"

definition isExpired :: "rat \<Rightarrow> int \<Rightarrow> CartEntry \<Rightarrow> bool" where
  "isExpired ttl now entry = (now > expirationTime ttl entry)"

definition client_createCart ::
  "SalesforceCartClientMock \<Rightarrow> Cart \<Rightarrow> Cart \<times> SalesforceCartClientMock" where
  "client_createCart s cart =
     (let entry = \<lparr>entry_cart = cart, entry_createdAt = createdAt cart\<rparr>
      in (cart, s\<lparr>carts := (carts s)(cartId cart \<mapsto> entry)\<rparr>))"

definition client_getCart ::
  "int \<Rightarrow> SalesforceCartClientMock \<Rightarrow> string
     \<Rightarrow> (DomainError + Cart option) \<times> SalesforceCartClientMock" where
  "client_getCart now s cid =
     (case carts s cid of
        None \<Rightarrow> (Inr None, s)
      | Some entry \<Rightarrow>
          if isExpired (ttlMinutes s) now entry
          then (Inl (CartExpiredError cid), s\<lparr>carts := (carts s)(cid := None)\<rparr>)
          else (Inr (Some (entry_cart entry)), s))"

definition client_updateCart ::
  "int \<Rightarrow> SalesforceCartClientMock \<Rightarrow> Cart
     \<Rightarrow> (DomainError + Cart) \<times> SalesforceCartClientMock" where
  "client_updateCart now s cart =
     (case carts s (cartId cart) of
        None \<Rightarrow> (Inl (ResourceNotFoundError ''Cart'' (cartId cart)), s)
      | Some entry \<Rightarrow>
          if isExpired (ttlMinutes s) now entry
          then (Inl (CartExpiredError (cartId cart)),
                s\<lparr>carts := (carts s)(cartId cart := None)\<rparr>)
          else (Inr cart, s\<lparr>carts := (carts s)(cartId cart \<mapsto> entry\<lparr>entry_cart := cart\<rparr>)\<rparr>))"

definition client_deleteCart ::
  "SalesforceCartClientMock \<Rightarrow> string \<Rightarrow> SalesforceCartClientMock" where
  "client_deleteCart s cid = s\<lparr>carts := (carts s)(cid := None)\<rparr>"

definition cleanupExpiredCarts ::
  "int \<Rightarrow> SalesforceCartClientMock \<Rightarrow> SalesforceCartClientMock" where
  "cleanupExpiredCarts now s =
     s\<lparr>carts := (\<lambda>cid. case carts s cid of
                           None \<Rightarrow> None
                         | Some entry \<Rightarrow>
                             if isExpired (ttlMinutes s) now entry then None else Some entry)\<rparr>"

section \<open>Cart identifiers\<close>

text \<open>
  \<^verbatim>\<open>/^[0-9a-f]{8}-[0-9a-f]{4}-4[0-9a-f]{3}-[89ab][0-9a-f]{3}-[0-9a-f]{12}$/i\<close>:
  each step consumes a prefix of the string, and the whole string must be consumed.
\<close>

definition hexDigit :: "char \<Rightarrow> bool" where
  "hexDigit c = (c \<in> set ''0123456789abcdefABCDEF'')"

fun hexDigits :: "nat \<Rightarrow> string \<Rightarrow> string option" where
  "hexDigits 0 s = Some s"
| "hexDigits (Suc n) [] = None"
| "hexDigits (Suc n) (c # cs) = (if hexDigit c then hexDigits n cs else None)"

fun oneOf :: "string \<Rightarrow> string \<Rightarrow> string option" where
  "oneOf cls [] = None"
| "oneOf cls (c # cs) = (if c \<in> set cls then Some cs else None)"

definition uuidRegex_test :: "string \<Rightarrow> bool" where
  "uuidRegex_test s =
     (Some s \<bind> hexDigits 8 \<bind> oneOf ''-'' \<bind> hexDigits 4 \<bind> oneOf ''-''
        \<bind> oneOf ''4'' \<bind> hexDigits 3 \<bind> oneOf ''-''
        \<bind> oneOf ''89abAB'' \<bind> hexDigits 3 \<bind> oneOf ''-''
        \<bind> hexDigits 12 = Some [])"

definition validateCartId :: "string \<Rightarrow> DomainError + unit" where
  "validateCartId cid =
     (if \<not> uuidRegex_test cid then Inl (ValidationError InvalidCartIdFormat) else Inr ())"

section \<open>The heap and the world\<close>

text \<open>
  The world in which the service runs: the store instance, and the heap of item objects
  and item arrays. An address is an index; allocation appends. A cart's array is
  \<open>arrays w ! items cart\<close> and its items are read through \<open>objects w\<close>.
\<close>

record World =
  client :: SalesforceCartClientMock
  objects :: "CartItem list"
  arrays :: "ref list list"

definition cart_items :: "World \<Rightarrow> Cart \<Rightarrow> CartItem list" where
  "cart_items w cart = map (\<lambda>r. objects w ! r) (arrays w ! items cart)"

section \<open>Pricing (StandardPricingStrategy)\<close>

definition TAX_RATE :: rat where
  "TAX_RATE = fl (9 / 100)"

definition calculatePricing :: "int \<Rightarrow> World \<Rightarrow> Cart \<Rightarrow> Cart" where
  "calculatePricing now w cart =
     (let sub = foldl (\<lambda>sum item. fl (sum + totalPrice item)) 0 (cart_items w cart);
          tx = fl (Math_round (fl (fl (sub * TAX_RATE) * 100)) / 100);
          tot = fl (Math_round (fl (fl (sub + tx) * 100)) / 100)
      in cart\<lparr>subtotal := fl (Math_round (fl (sub * 100)) / 100),
              tax := tx,
              cartTotal := tot,
              updatedAt := now\<rparr>)"

section \<open>The service (CartService)\<close>

text \<open>
  The service is its configuration; its collaborators are the store and the pricing
  strategy above. Calls are taken one at a time, each running to completion: interleavings
  of concurrent calls at their \<^verbatim>\<open>await\<close> points are not modelled. Arguments have the
  types of their TypeScript declarations, so the \<^verbatim>\<open>typeof\<close> tests of
  \<open>validateProduct\<close> always pass and only its tests on the values remain.
\<close>

record CartService =
  cartTtlMinutes :: rat
  maxQty :: rat
  minQty :: rat

definition defaultConfig :: CartService where
  "defaultConfig = \<lparr>cartTtlMinutes = 5, maxQty = 99, minQty = 1\<rparr>"

text \<open>
  What one call reads from its environment: the clock at the store's expiry check on the
  read (\<open>t_get\<close>), at \<^verbatim>\<open>addedAt\<close>, at the repricing and at the store's expiry check
  on the write back, and the identifier \<^verbatim>\<open>uuidv4()\<close> returns.
\<close>

record Env =
  t_get :: int
  t_added :: int
  t_priced :: int
  t_update :: int
  uuid :: string

definition validateQuantity :: "CartService \<Rightarrow> rat \<Rightarrow> DomainError + unit" where
  "validateQuantity svc q =
     (if \<not> Number_isInteger q then Inl (ValidationError QuantityMustBeInteger)
      else if q < minQty svc \<or> q > maxQty svc
      then Inl (ValidationError (QuantityMustBeBetween (minQty svc) (maxQty svc)))
      else Inr ())"

definition validateProduct :: "Product \<Rightarrow> DomainError + unit" where
  "validateProduct p =
     (if productId p = [] then Inl (ValidationError ProductIdRequired)
      else if name p = [] then Inl (ValidationError ProductNameRequired)
      else if price p < 0 then Inl (ValidationError ProductPriceMustBePositive)
      else if category p \<notin> set [''plan'', ''device'', ''addon'', ''accessory'']
      then Inl (ValidationError (InvalidProductCategory (category p)))
      else Inr ())"

fun findIndex :: "('a \<Rightarrow> bool) \<Rightarrow> 'a list \<Rightarrow> int" where
  "findIndex P [] = - 1"
| "findIndex P (x # xs) =
     (if P x then 0 else (let i = findIndex P xs in if i < 0 then - 1 else i + 1))"

definition createCart ::
  "CartService \<Rightarrow> int \<Rightarrow> string \<Rightarrow> CartMetadata option \<Rightarrow> World \<Rightarrow> Cart \<times> World" where
  "createCart svc now newId md w =
     (let expires = Date_new (fl (of_int now + fl (fl (cartTtlMinutes svc * 60) * 1000)));
          cart = \<lparr>cartId = newId, items = length (arrays w), subtotal = 0, tax = 0,
                  cartTotal = 0, createdAt = now, updatedAt = now, expiresAt = expires,
                  metadata = md\<rparr>;
          (stored, s) = client_createCart (client w) cart
      in (stored, w\<lparr>client := s, arrays := arrays w @ [[]]\<rparr>))"

definition getCart :: "int \<Rightarrow> World \<Rightarrow> string \<Rightarrow> (DomainError + Cart) \<times> World" where
  "getCart now w cid =
     (case validateCartId cid of
        Inl e \<Rightarrow> (Inl e, w)
      | Inr _ \<Rightarrow>
          (case client_getCart now (client w) cid of
             (Inl e, s) \<Rightarrow> (Inl e, w\<lparr>client := s\<rparr>)
           | (Inr None, s) \<Rightarrow> (Inl (ResourceNotFoundError ''Cart'' cid), w\<lparr>client := s\<rparr>)
           | (Inr (Some cart), s) \<Rightarrow> (Inr cart, w\<lparr>client := s\<rparr>)))"

text \<open>\<^verbatim>\<open>this.client.updateCart(this.pricing.calculatePricing(cart))\<close>, the tail of every mutation.\<close>

definition repriceAndUpdate :: "Env \<Rightarrow> World \<Rightarrow> Cart \<Rightarrow> (DomainError + Cart) \<times> World" where
  "repriceAndUpdate env w cart =
     (case client_updateCart (t_update env) (client w) (calculatePricing (t_priced env) w cart) of
        (r, s) \<Rightarrow> (r, w\<lparr>client := s\<rparr>))"

definition addItem ::
  "CartService \<Rightarrow> Env \<Rightarrow> World \<Rightarrow> string \<Rightarrow> AddItemRequest \<Rightarrow> (DomainError + Cart) \<times> World" where
  "addItem svc env w cid request =
     (case validateCartId cid of Inl e \<Rightarrow> (Inl e, w) | Inr _ \<Rightarrow>
      (case validateQuantity svc (req_quantity request) of Inl e \<Rightarrow> (Inl e, w) | Inr _ \<Rightarrow>
      (case validateProduct (req_product request) of Inl e \<Rightarrow> (Inl e, w) | Inr _ \<Rightarrow>
      (case getCart (t_get env) w cid of
         (Inl e, w1) \<Rightarrow> (Inl e, w1)
       | (Inr cart, w1) \<Rightarrow>
           (let arr = arrays w1 ! items cart;
                existingIdx = findIndex
                  (\<lambda>r. productId (product (objects w1 ! r)) = productId (req_product request)) arr
            in if existingIdx \<ge> 0
               then (let r = arr ! nat existingIdx;
                         item = objects w1 ! r;
                         newQty = fl (quantity item + req_quantity request)
                     in if newQty > maxQty svc
                        then (Inl (ValidationError
                                (TotalQuantityWouldExceed (name (req_product request)) (maxQty svc))), w1)
                        else repriceAndUpdate env
                               (w1\<lparr>objects := (objects w1)
                                   [r := item\<lparr>quantity := newQty,
                                              totalPrice :=
                                                fl (Math_round (fl (fl (unitPrice item * newQty) * 100)) / 100)\<rparr>]\<rparr>)
                               cart)
               else (let newItem =
                           \<lparr>itemId = uuid env,
                            product = req_product request,
                            quantity = req_quantity request,
                            unitPrice = price (req_product request),
                            totalPrice =
                              fl (Math_round
                                    (fl (fl (price (req_product request) * req_quantity request) * 100)) / 100),
                            addedAt = t_added env\<rparr>
                     in repriceAndUpdate env
                          (w1\<lparr>objects := objects w1 @ [newItem],
                              arrays := (arrays w1)[items cart := arr @ [length (objects w1)]]\<rparr>)
                          cart))))))"

definition removeItem ::
  "Env \<Rightarrow> World \<Rightarrow> string \<Rightarrow> string \<Rightarrow> (DomainError + Cart) \<times> World" where
  "removeItem env w cid iid =
     (case validateCartId cid of Inl e \<Rightarrow> (Inl e, w) | Inr _ \<Rightarrow>
      (case getCart (t_get env) w cid of
         (Inl e, w1) \<Rightarrow> (Inl e, w1)
       | (Inr cart, w1) \<Rightarrow>
           (let arr = arrays w1 ! items cart;
                idx = findIndex (\<lambda>r. itemId (objects w1 ! r) = iid) arr
            in if idx = - 1 then (Inl (ResourceNotFoundError ''Item'' iid), w1)
               else repriceAndUpdate env
                      (w1\<lparr>arrays := (arrays w1)
                          [items cart := take (nat idx) arr @ drop (nat idx + 1) arr]\<rparr>)
                      cart)))"

definition updateItemQuantity ::
  "CartService \<Rightarrow> Env \<Rightarrow> World \<Rightarrow> string \<Rightarrow> string \<Rightarrow> rat \<Rightarrow> (DomainError + Cart) \<times> World" where
  "updateItemQuantity svc env w cid iid qty =
     (case validateCartId cid of Inl e \<Rightarrow> (Inl e, w) | Inr _ \<Rightarrow>
      (case validateQuantity svc qty of Inl e \<Rightarrow> (Inl e, w) | Inr _ \<Rightarrow>
      (case getCart (t_get env) w cid of
         (Inl e, w1) \<Rightarrow> (Inl e, w1)
       | (Inr cart, w1) \<Rightarrow>
           (case find (\<lambda>r. itemId (objects w1 ! r) = iid) (arrays w1 ! items cart) of
              None \<Rightarrow> (Inl (ResourceNotFoundError ''Item'' iid), w1)
            | Some r \<Rightarrow>
                (let item = objects w1 ! r
                 in repriceAndUpdate env
                      (w1\<lparr>objects := (objects w1)
                          [r := item\<lparr>quantity := qty,
                                     totalPrice :=
                                       fl (Math_round (fl (fl (unitPrice item * qty) * 100)) / 100)\<rparr>]\<rparr>)
                      cart)))))"

definition clearCart :: "Env \<Rightarrow> World \<Rightarrow> string \<Rightarrow> (DomainError + Cart) \<times> World" where
  "clearCart env w cid =
     (case validateCartId cid of Inl e \<Rightarrow> (Inl e, w) | Inr _ \<Rightarrow>
      (case getCart (t_get env) w cid of
         (Inl e, w1) \<Rightarrow> (Inl e, w1)
       | (Inr cart, w1) \<Rightarrow>
           repriceAndUpdate env (w1\<lparr>arrays := arrays w1 @ [[]]\<rparr>)
             (cart\<lparr>items := length (arrays w1)\<rparr>)))"

definition deleteCart :: "World \<Rightarrow> string \<Rightarrow> (DomainError + unit) \<times> World" where
  "deleteCart w cid =
     (case validateCartId cid of
        Inl e \<Rightarrow> (Inl e, w)
      | Inr _ \<Rightarrow> (Inr (), w\<lparr>client := client_deleteCart (client w) cid\<rparr>))"

section \<open>Runs of store operations\<close>

text \<open>
  A read or a write of the store, with the clock reading at its expiry check; a run
  applies a list of them in order, whatever each one returns.
\<close>

datatype StoreOp = Get string | Update Cart

fun applyStoreOp :: "SalesforceCartClientMock \<Rightarrow> int \<times> StoreOp \<Rightarrow> SalesforceCartClientMock" where
  "applyStoreOp s (now, Get cid) = snd (client_getCart now s cid)"
| "applyStoreOp s (now, Update cart) = snd (client_updateCart now s cart)"

definition runStoreOps ::
  "(int \<times> StoreOp) list \<Rightarrow> SalesforceCartClientMock \<Rightarrow> SalesforceCartClientMock" where
  "runStoreOps ops s = foldl applyStoreOp s ops"

section \<open>Sample data\<close>

text \<open>A fresh process: \<^verbatim>\<open>new SalesforceCartClientMock(ttl)\<close> and an empty heap.\<close>

definition initialWorld :: "rat \<Rightarrow> World" where
  "initialWorld ttl =
     \<lparr>client = \<lparr>carts = Map.empty, ttlMinutes = ttl\<rparr>, objects = [], arrays = []\<rparr>"

definition demoId :: string where
  "demoId = ''123e4567-e89b-42d3-a456-426614174000''"

text \<open>A cart created at time 1000 with the default five minutes: it expires after 301000.\<close>

definition demoWorld :: World where
  "demoWorld = snd (createCart defaultConfig 1000 demoId None (initialWorld 5))"

definition demoCart :: Cart where
  "demoCart = fst (createCart defaultConfig 1000 demoId None (initialWorld 5))"

definition demoOps :: "(int \<times> StoreOp) list" where
  "demoOps = [(2000, Get demoId), (3000, Update (demoCart\<lparr>subtotal := 5\<rparr>)), (301000, Get demoId)]"

text \<open>The same entry, except that the stored cart's own \<open>expiresAt\<close> lies in the past.\<close>

definition staleStore :: SalesforceCartClientMock where
  "staleStore =
     \<lparr>carts = [demoId \<mapsto> \<lparr>entry_cart = demoCart\<lparr>expiresAt := 0\<rparr>, entry_createdAt = 1000\<rparr>],
      ttlMinutes = 5\<rparr>"

text \<open>Fifty units of a product at 10.00 in the sample cart (subtotal 500, tax 45, total 545).\<close>

definition demoProduct :: Product where
  "demoProduct = \<lparr>productId = ''prod-001'', name = ''Test Product'', description = None,
                    price = 10, category = ''plan''\<rparr>"

definition demoEnv :: Env where
  "demoEnv = \<lparr>t_get = 2000, t_added = 2001, t_priced = 2002, t_update = 2003,
               uuid = ''0b5e9c1e-7c1a-4f0e-9d3b-2f6a8c4e1a77''\<rparr>"

definition demoWorld50 :: World where
  "demoWorld50 =
     snd (addItem defaultConfig demoEnv demoWorld demoId
            \<lparr>req_product = demoProduct, req_quantity = 50\<rparr>)"

section \<open>Vocabulary of the specification\<close>

text \<open>
  \<open>round2 x\<close> is the source expression \<^verbatim>\<open>Math.round(x * 100) / 100\<close>, and
  \<open>rawSubtotal\<close> the unrounded sum \<^verbatim>\<open>reduce\<close> computes over the cart's items.
\<close>

definition round2 :: "rat \<Rightarrow> rat" where
  "round2 x = fl (Math_round (fl (x * 100)) / 100)"

definition rawSubtotal :: "World \<Rightarrow> Cart \<Rightarrow> rat" where
  "rawSubtotal w cart = foldl (\<lambda>sum item. fl (sum + totalPrice item)) 0 (cart_items w cart)"

text \<open>A cart with a single item whose total price is the binary64 number written \<^verbatim>\<open>1.005\<close>.\<close>

definition oddWorld :: World where
  "oddWorld =
     \<lparr>client = \<lparr>carts = Map.empty, ttlMinutes = 5\<rparr>,
      objects = [\<lparr>itemId = ''item-1'',
                  product = \<lparr>productId = ''prod-1'', name = ''Test'', description = None,
                             price = fl (201 / 200), category = ''plan''\<rparr>,
                  quantity = 1, unitPrice = fl (201 / 200), totalPrice = fl (201 / 200),
                  addedAt = 0\<rparr>],
      arrays = [[0]]\<rparr>"

definition oddCart :: Cart where
  "oddCart = \<lparr>cartId = ''test-cart'', items = 0, subtotal = 0, tax = 0, cartTotal = 0,
               createdAt = 0, updatedAt = 0, expiresAt = 0, metadata = None\<rparr>"

text \<open>
  A product priced at a tenth of a cent (\<^verbatim>\<open>0.001\<close>), added twice with quantity 1 to the
  sample cart.
\<close>

definition cheapProduct :: Product where
  "cheapProduct = \<lparr>productId = ''prod-002'', name = ''Sticker'', description = None,
                     price = fl (1 / 1000), category = ''accessory''\<rparr>"

definition cheapOnce :: "(DomainError + Cart) \<times> World" where
  "cheapOnce = addItem defaultConfig demoEnv demoWorld demoId
                 \<lparr>req_product = cheapProduct, req_quantity = 1\<rparr>"

definition cheapTwice :: "(DomainError + Cart) \<times> World" where
  "cheapTwice = addItem defaultConfig (demoEnv\<lparr>t_get := 3000, t_added := 3001, t_priced := 3002,
                   t_update := 3003, uuid := ''5f0c2a4e-91b7-4c3d-8e2f-7a6b5c4d3e2f''\<rparr>)
                  (snd cheapOnce) demoId \<lparr>req_product = cheapProduct, req_quantity = 1\<rparr>"

text \<open>Forty-nine more units of the sample product, at a different request price.\<close>

definition demoMerged :: "(DomainError + Cart) \<times> World" where
  "demoMerged = addItem defaultConfig (demoEnv\<lparr>t_get := 3000, t_added := 3001, t_priced := 3002,
                   t_update := 3003, uuid := ''5f0c2a4e-91b7-4c3d-8e2f-7a6b5c4d3e2f''\<rparr>)
                  demoWorld50 demoId
                  \<lparr>req_product = demoProduct\<lparr>price := 12\<rparr>, req_quantity = 49\<rparr>"

section \<open>Runs of service operations\<close>

text \<open>
  One call of the service (or one firing of the store's periodic clean-up), with what it
  reads from its environment. A run applies a list of calls in order to a world, keeping
  the world each call leaves behind whether the call succeeded or failed.
\<close>

datatype Op =
    CreateCart int string "CartMetadata option"
  | GetCart int string
  | AddItem Env string AddItemRequest
  | RemoveItem Env string string
  | UpdateItemQuantity Env string string rat
  | ClearCart Env string
  | DeleteCart string
  | Cleanup int

fun exec :: "CartService \<Rightarrow> World \<Rightarrow> Op \<Rightarrow> (DomainError + Cart option) \<times> World" where
  "exec svc w (CreateCart now newId md) =
     (case createCart svc now newId md w of (c, w') \<Rightarrow> (Inr (Some c), w'))"
| "exec svc w (GetCart now cid) =
     (case getCart now w cid of (r, w') \<Rightarrow> (map_sum id Some r, w'))"
| "exec svc w (AddItem env cid request) =
     (case addItem svc env w cid request of (r, w') \<Rightarrow> (map_sum id Some r, w'))"
| "exec svc w (RemoveItem env cid iid) =
     (case removeItem env w cid iid of (r, w') \<Rightarrow> (map_sum id Some r, w'))"
| "exec svc w (UpdateItemQuantity env cid iid qty) =
     (case updateItemQuantity svc env w cid iid qty of (r, w') \<Rightarrow> (map_sum id Some r, w'))"
| "exec svc w (ClearCart env cid) =
     (case clearCart env w cid of (r, w') \<Rightarrow> (map_sum id Some r, w'))"
| "exec svc w (DeleteCart cid) =
     (case deleteCart w cid of (r, w') \<Rightarrow> (map_sum id (\<lambda>_. None) r, w'))"
| "exec svc w (Cleanup now) = (Inr None, w\<lparr>client := cleanupExpiredCarts now (client w)\<rparr>)"

definition runOps :: "CartService \<Rightarrow> Op list \<Rightarrow> World \<Rightarrow> World" where
  "runOps svc ops w = foldl (\<lambda>w op. snd (exec svc w op)) w ops"

text \<open>
  The invariants of the data model: an item's total price is derived from its unit price
  and quantity, and no two items of a cart are for the same product.
\<close>

definition item_ok :: "CartItem \<Rightarrow> bool" where
  "item_ok it = (totalPrice it = round2 (fl (unitPrice it * quantity it)))"

definition cart_ok :: "World \<Rightarrow> Cart \<Rightarrow> bool" where
  "cart_ok w cart =
     (distinct (map (\<lambda>it. productId (product it)) (cart_items w cart)) \<and>
      list_all item_ok (cart_items w cart))"

text \<open>
  The same on the whole heap, together with the absence of dangling addresses: every
  item object is consistent, every array holds addresses of item objects for pairwise
  different products, and every stored cart's array exists.
\<close>

definition array_ok :: "World \<Rightarrow> ref list \<Rightarrow> bool" where
  "array_ok w arr =
     (list_all (\<lambda>r. r < length (objects w)) arr \<and>
      distinct (map (\<lambda>r. productId (product (objects w ! r))) arr))"

definition heap_ok :: "World \<Rightarrow> bool" where
  "heap_ok w = (list_all item_ok (objects w) \<and> list_all (array_ok w) (arrays w))"

definition store_ok :: "World \<Rightarrow> bool" where
  "store_ok w =
     (\<forall>cid e. carts (client w) cid = Some e \<longrightarrow> items (entry_cart e) < length (arrays w))"

definition demoRun :: "Op list" where
  "demoRun = [CreateCart 1000 demoId None,
              AddItem demoEnv demoId \<lparr>req_product = demoProduct, req_quantity = 50\<rparr>]"

text \<open>What a call must leave behind: a consistent world and, on success, a cart whose array exists.\<close>

definition outcome_ok :: "(DomainError + Cart) \<times> World \<Rightarrow> bool" where
  "outcome_ok x =
     (heap_ok (snd x) \<and> store_ok (snd x) \<and>
      (\<forall>c. fst x = Inr c \<longrightarrow> items c < length (arrays (snd x))))"

section \<open>A caller holding a returned cart\<close>

text \<open>
  What code outside the service can do with a cart it was handed: the assignment
  \<^verbatim>\<open>cart.items[i].quantity = q\<close> writes the item object the array refers to.
\<close>

definition caller_setQuantity :: "World \<Rightarrow> Cart \<Rightarrow> nat \<Rightarrow> rat \<Rightarrow> World" where
  "caller_setQuantity w cart i q =
     (let r = arrays w ! items cart ! i
      in w\<lparr>objects := (objects w)[r := (objects w ! r)\<lparr>quantity := q\<rparr>]\<rparr>)"

text \<open>
  The assignment \<^verbatim>\<open>cart.items = []\<close> on the caller's own cart object allocates a new
  array; the caller's cart is then \<open>cart\<lparr>items := length (arrays w)\<rparr>\<close>.
\<close>

definition caller_replaceItems :: "World \<Rightarrow> World" where
  "caller_replaceItems w = w\<lparr>arrays := arrays w @ [[]]\<rparr>"

section \<open>Whole numbers are exact\<close>

lemma bitlen_pos: "0 < n \<Longrightarrow> bitlen n = 1 + bitlen (n div 2)"
  by (subst bitlen.simps) simp

lemma bitlen_nonpos: "n \<le> 0 \<Longrightarrow> bitlen n = 0"
  by (subst bitlen.simps) simp

lemma bitlen_bounds:
  "0 < n \<Longrightarrow> 1 \<le> bitlen n \<and> 2 ^ nat (bitlen n - 1) \<le> n \<and> n < 2 ^ nat (bitlen n)"
proof (induction n rule: bitlen.induct)
  case (1 n)
  show ?case
  proof (cases "n div 2 = 0")
    case True
    with "1.prems" have "n = 1" by presburger
    then show ?thesis
      by (simp add: bitlen_pos bitlen_nonpos)
  next
    case False
    with "1.prems" have m: "0 < n div 2" by presburger
    from "1.IH" "1.prems" m
    have b: "1 \<le> bitlen (n div 2)"
      and lo: "2 ^ nat (bitlen (n div 2) - 1) \<le> n div 2"
      and hi: "n div 2 < 2 ^ nat (bitlen (n div 2))"
      by simp_all
    have bl: "bitlen n = 1 + bitlen (n div 2)"
      using "1.prems" by (rule bitlen_pos)
    have e1: "nat (bitlen n - 1) = Suc (nat (bitlen (n div 2) - 1))"
      using b bl by simp
    have e2: "nat (bitlen n) = Suc (nat (bitlen (n div 2)))"
      using b bl by simp
    have "2 * (n div 2) \<le> n" and "n < 2 * (n div 2) + 2" by presburger+
    with lo hi b bl show ?thesis
      unfolding e1 e2 by simp
  qed
qed

lemma roundTiesToEven_of_int: "roundTiesToEven (of_int k) = k"
  by (simp add: roundTiesToEven_def)

lemma fl_of_int:
  assumes "\<bar>n\<bar> < 2 ^ 53"
  shows "fl (of_int n) = of_int n"
proof (cases "n = 0")
  case True
  then show ?thesis by (simp add: fl_def)
next
  case False
  then have pos: "0 < \<bar>n\<bar>" by simp
  let ?b = "bitlen \<bar>n\<bar>"
  from bitlen_bounds [OF pos] have b1: "1 \<le> ?b" and lo: "2 ^ nat (?b - 1) \<le> \<bar>n\<bar>"
    by simp_all
  have ex: "exponent (of_int n) = ?b - 1"
  proof -
    have "1 \<le> \<bar>rat_of_int n\<bar>" using pos by (simp flip: of_int_abs)
    moreover have "\<lfloor>\<bar>rat_of_int n\<bar>\<rfloor> = \<bar>n\<bar>" by (simp flip: of_int_abs)
    ultimately show ?thesis by (simp add: exponent_def)
  qed
  have le52: "?b - 1 \<le> 52"
  proof (rule ccontr)
    assume "\<not> ?b - 1 \<le> 52"
    then have "53 \<le> nat (?b - 1)" by simp
    then have "(2::int) ^ 53 \<le> 2 ^ nat (?b - 1)"
      by (rule power_increasing) simp
    with lo assms show False by simp
  qed
  let ?k = "nat (52 - (?b - 1))"
  have u: "pow2 (exponent (of_int n) - 52) = 1 / 2 ^ ?k"
  proof (cases "?b - 1 = 52")
    case True
    then show ?thesis by (simp add: ex pow2_def)
  next
    case False
    with le52 have "?b - 1 - 52 < 0" by simp
    then show ?thesis
      by (simp add: ex pow2_def)
  qed
  have scaled: "rat_of_int n / (1 / 2 ^ ?k) = of_int (n * 2 ^ ?k)"
    by simp
  have "fl (rat_of_int n)
      = of_int (roundTiesToEven (rat_of_int n / pow2 (exponent (of_int n) - 52)))
        * pow2 (exponent (of_int n) - 52)"
    using False by (simp add: fl_def Let_def)
  also have "\<dots> = of_int (roundTiesToEven (of_int (n * 2 ^ ?k))) * (1 / 2 ^ ?k)"
    by (simp only: u scaled)
  also have "\<dots> = of_int (n * 2 ^ ?k) * (1 / 2 ^ ?k)"
    by (simp only: roundTiesToEven_of_int)
  also have "\<dots> = of_int n"
    by simp
  finally show ?thesis .
qed

lemma fl_sum_integers:
  assumes "Number_isInteger a" and "Number_isInteger b" and "\<bar>a + b\<bar> < 2 ^ 53"
  shows "fl (a + b) = a + b"
proof -
  from assms(1,2) have "rat_of_int \<lfloor>a\<rfloor> = a" and "rat_of_int \<lfloor>b\<rfloor> = b"
    unfolding Number_isInteger_def by this+
  then have ab: "a + b = of_int (\<lfloor>a\<rfloor> + \<lfloor>b\<rfloor>)"
    by (simp only: of_int_add)
  with assms(3) have "rat_of_int \<bar>\<lfloor>a\<rfloor> + \<lfloor>b\<rfloor>\<bar> < of_int (2 ^ 53)"
    by simp
  then have "\<bar>\<lfloor>a\<rfloor> + \<lfloor>b\<rfloor>\<bar> < 2 ^ 53"
    by (simp only: of_int_less_iff)
  from fl_of_int [OF this] ab show ?thesis by simp
qed

section \<open>Evaluation of the sample data\<close>

lemma demoId_ok: "uuidRegex_test demoId"
  by code_simp

lemma demo_expires: "Date_new (fl (1000 + fl (fl 300 * 1000))) = 301000"
  by code_simp

lemma demoCart_eq:
  "demoCart = \<lparr>cartId = demoId, items = 0, subtotal = 0, tax = 0, cartTotal = 0,
                createdAt = 1000, updatedAt = 1000, expiresAt = 301000, metadata = None\<rparr>"
  by (simp add: demoCart_def createCart_def defaultConfig_def initialWorld_def
      client_createCart_def demo_expires Let_def)

lemma demoWorld_eq:
  "demoWorld = \<lparr>client = \<lparr>carts = [demoId \<mapsto> \<lparr>entry_cart = demoCart, entry_createdAt = 1000\<rparr>],
                            ttlMinutes = 5\<rparr>,
                 objects = [], arrays = [[]]\<rparr>"
  by (simp add: demoWorld_def demoCart_eq createCart_def defaultConfig_def initialWorld_def
      client_createCart_def demo_expires Let_def)

lemma demo_deadline:
  "expirationTime 5 \<lparr>entry_cart = c, entry_createdAt = 1000\<rparr> = 301000"
  by (simp add: expirationTime_def demo_expires)

lemma demo_entry:
  "carts (client demoWorld) demoId = Some \<lparr>entry_cart = demoCart, entry_createdAt = 1000\<rparr>"
  by (simp add: demoWorld_eq)

lemma demo_ttl: "ttlMinutes (client demoWorld) = 5"
  by (simp add: demoWorld_eq)

section \<open>Deleting a cart\<close>

text \<open>
  Claim C8. For every well-formed (version-4 UUID) cart id, \<open>deleteCart\<close> succeeds in
  every world, whether the store holds a live entry, an expired one or none for the id:
  it removes the entry for that id, leaves every other entry alone, and deleting the same
  id again succeeds too and changes nothing further.
\<close>

theorem deleteCart_always_succeeds:
  assumes "uuidRegex_test cid"
  shows "deleteCart w cid = (Inr (), w\<lparr>client := client_deleteCart (client w) cid\<rparr>)
       \<and> carts (client (snd (deleteCart w cid))) cid = None
       \<and> (\<forall>k. k \<noteq> cid \<longrightarrow> carts (client (snd (deleteCart w cid))) k = carts (client w) k)
       \<and> deleteCart (snd (deleteCart w cid)) cid = (Inr (), snd (deleteCart w cid))"
  using assms by (simp add: deleteCart_def validateCartId_def client_deleteCart_def)

theorem deleteCart_always_succeeds_witness:
  "uuidRegex_test demoId
   \<and> deleteCart demoWorld demoId
       = (Inr (), demoWorld\<lparr>client := client_deleteCart (client demoWorld) demoId\<rparr>)
   \<and> deleteCart (snd (deleteCart demoWorld demoId)) demoId
       = (Inr (), snd (deleteCart demoWorld demoId))
   \<and> deleteCart (initialWorld 5) demoId
       = (Inr (), (initialWorld 5)\<lparr>client := client_deleteCart (client (initialWorld 5)) demoId\<rparr>)"
  using deleteCart_always_succeeds [OF demoId_ok, of demoWorld]
    deleteCart_always_succeeds [OF demoId_ok, of "initialWorld 5"] demoId_ok
  by blast

section \<open>Expiry on read\<close>

text \<open>
  Claim C3. For an entry of the store under a well-formed id: a read no later than the
  entry's expiration time (its recorded \<open>createdAt\<close> plus the TTL) returns the stored cart
  and changes nothing; a read strictly after it fails with \<open>CartExpiredError\<close> and the
  entry is removed before the failure is returned; every later read of the same id through
  the service then fails with \<open>ResourceNotFoundError\<close> and leaves the world as it is, so
  the expiry failure is reported once.
\<close>

theorem getCart_expiry_transition:
  assumes "carts (client w) cid = Some entry" and "uuidRegex_test cid"
  shows "(now \<le> expirationTime (ttlMinutes (client w)) entry \<longrightarrow>
            client_getCart now (client w) cid = (Inr (Some (entry_cart entry)), client w) \<and>
            getCart now w cid = (Inr (entry_cart entry), w))
       \<and> (expirationTime (ttlMinutes (client w)) entry < now \<longrightarrow>
            client_getCart now (client w) cid
              = (Inl (CartExpiredError cid), client_deleteCart (client w) cid) \<and>
            getCart now w cid
              = (Inl (CartExpiredError cid), w\<lparr>client := client_deleteCart (client w) cid\<rparr>) \<and>
            (\<forall>later. getCart later (w\<lparr>client := client_deleteCart (client w) cid\<rparr>) cid
                       = (Inl (ResourceNotFoundError ''Cart'' cid),
                          w\<lparr>client := client_deleteCart (client w) cid\<rparr>)))"
  using assms
  by (simp add: getCart_def client_getCart_def validateCartId_def isExpired_def
      client_deleteCart_def)

theorem getCart_expiry_transition_witness:
  "carts (client demoWorld) demoId = Some \<lparr>entry_cart = demoCart, entry_createdAt = 1000\<rparr>
   \<and> uuidRegex_test demoId
   \<and> getCart 301000 demoWorld demoId = (Inr demoCart, demoWorld)
   \<and> getCart 301001 demoWorld demoId
        = (Inl (CartExpiredError demoId),
           demoWorld\<lparr>client := client_deleteCart (client demoWorld) demoId\<rparr>)
   \<and> getCart 301002 (demoWorld\<lparr>client := client_deleteCart (client demoWorld) demoId\<rparr>) demoId
        = (Inl (ResourceNotFoundError ''Cart'' demoId),
           demoWorld\<lparr>client := client_deleteCart (client demoWorld) demoId\<rparr>)"
proof -
  note live = getCart_expiry_transition [OF demo_entry demoId_ok, of 301000]
  note gone = getCart_expiry_transition [OF demo_entry demoId_ok, of 301001]
  show ?thesis
    using demo_entry demoId_ok live gone by (simp add: demo_ttl demo_deadline)
qed

section \<open>Absolute expiration\<close>

lemma expirationTime_anchor:
  "entry_createdAt e' = entry_createdAt e \<Longrightarrow> expirationTime ttl e' = expirationTime ttl e"
  by (simp add: expirationTime_def)

lemma applyStoreOp_ttl: "ttlMinutes (applyStoreOp s (t, op)) = ttlMinutes s"
  by (cases op) (simp_all add: client_getCart_def client_updateCart_def split: option.splits)

lemma applyStoreOp_absent:
  "carts s cid = None \<Longrightarrow> carts (applyStoreOp s (t, op)) cid = None"
  by (cases op) (auto simp: client_getCart_def client_updateCart_def split: option.splits)

lemma applyStoreOp_present:
  assumes "carts s cid = Some e"
  shows "(carts (applyStoreOp s (t, op)) cid = None \<and> expirationTime (ttlMinutes s) e < t)
       \<or> (\<exists>e'. carts (applyStoreOp s (t, op)) cid = Some e'
                \<and> entry_createdAt e' = entry_createdAt e)"
  using assms
  by (cases op) (auto simp: client_getCart_def client_updateCart_def isExpired_def
      split: option.splits)

lemma runStoreOps_ttl: "ttlMinutes (runStoreOps ops s) = ttlMinutes s"
  unfolding runStoreOps_def
  by (induction ops arbitrary: s) (auto simp: applyStoreOp_ttl)

lemma runStoreOps_absent:
  "carts s cid = None \<Longrightarrow> carts (runStoreOps ops s) cid = None"
  unfolding runStoreOps_def
  by (induction ops arbitrary: s) (auto simp: applyStoreOp_absent)

lemma runStoreOps_anchor:
  "carts s cid = Some e \<Longrightarrow> carts (runStoreOps ops s) cid = Some e'
     \<Longrightarrow> entry_createdAt e' = entry_createdAt e"
proof (induction ops arbitrary: s e)
  case Nil
  then show ?case by (simp add: runStoreOps_def)
next
  case (Cons op ops)
  obtain t0 o' where op: "op = (t0, o')" by (cases op)
  have run: "runStoreOps (op # ops) s = runStoreOps ops (applyStoreOp s (t0, o'))"
    by (simp add: runStoreOps_def op)
  from applyStoreOp_present [OF Cons.prems(1), of t0 o']
  show ?case
  proof
    assume "carts (applyStoreOp s (t0, o')) cid = None \<and> expirationTime (ttlMinutes s) e < t0"
    then have "carts (runStoreOps (op # ops) s) cid = None"
      unfolding run by (simp add: runStoreOps_absent)
    with Cons.prems(2) show ?thesis by simp
  next
    assume "\<exists>e1. carts (applyStoreOp s (t0, o')) cid = Some e1
               \<and> entry_createdAt e1 = entry_createdAt e"
    then obtain e1 where e1: "carts (applyStoreOp s (t0, o')) cid = Some e1"
      and a1: "entry_createdAt e1 = entry_createdAt e" by blast
    from Cons.prems(2) have "carts (runStoreOps ops (applyStoreOp s (t0, o'))) cid = Some e'"
      unfolding run .
    from Cons.IH [OF e1 this] a1 show ?thesis by simp
  qed
qed

lemma runStoreOps_survives:
  "carts s cid = Some e \<Longrightarrow> \<forall>(t, op) \<in> set ops. t \<le> expirationTime (ttlMinutes s) e
     \<Longrightarrow> \<exists>e'. carts (runStoreOps ops s) cid = Some e'"
proof (induction ops arbitrary: s e)
  case Nil
  then show ?case by (simp add: runStoreOps_def)
next
  case (Cons op ops)
  obtain t0 o' where op: "op = (t0, o')" by (cases op)
  have run: "runStoreOps (op # ops) s = runStoreOps ops (applyStoreOp s (t0, o'))"
    by (simp add: runStoreOps_def op)
  from Cons.prems(2) op have t0: "t0 \<le> expirationTime (ttlMinutes s) e" by simp
  with applyStoreOp_present [OF Cons.prems(1), of t0 o']
  obtain e1 where e1: "carts (applyStoreOp s (t0, o')) cid = Some e1"
    and a1: "entry_createdAt e1 = entry_createdAt e" by auto
  have "\<forall>(t, op) \<in> set ops. t \<le> expirationTime (ttlMinutes (applyStoreOp s (t0, o'))) e1"
    using Cons.prems(2) by (simp add: applyStoreOp_ttl expirationTime_anchor [OF a1])
  from Cons.IH [OF e1 this] show ?case unfolding run .
qed

text \<open>
  Claim C6. Over every run of reads and writes of the store, the expiration anchor of an
  entry (the \<open>createdAt\<close> recorded when the cart was stored) never changes: whenever the
  entry is still there after the run, its anchor and its expiration time are the original
  ones, whatever carts the writes put in; as long as every operation happens no later than
  the original expiration time the entry survives, and a read then fails with
  \<open>CartExpiredError\<close> exactly when it comes after that original time; and after that
  time no read returns the cart, whatever the run was. Expiration is absolute, not sliding.
\<close>

theorem expiration_anchor_fixed:
  assumes "carts s cid = Some entry"
  shows "(\<forall>e'. carts (runStoreOps ops s) cid = Some e' \<longrightarrow>
            entry_createdAt e' = entry_createdAt entry \<and>
            expirationTime (ttlMinutes (runStoreOps ops s)) e'
              = expirationTime (ttlMinutes s) entry)
       \<and> ((\<forall>(t, op) \<in> set ops. t \<le> expirationTime (ttlMinutes s) entry) \<longrightarrow>
            (\<exists>e'. carts (runStoreOps ops s) cid = Some e') \<and>
            (\<forall>now. fst (client_getCart now (runStoreOps ops s) cid) = Inl (CartExpiredError cid)
                    \<longleftrightarrow> expirationTime (ttlMinutes s) entry < now))
       \<and> (\<forall>now c. expirationTime (ttlMinutes s) entry < now \<longrightarrow>
            fst (client_getCart now (runStoreOps ops s) cid) \<noteq> Inr (Some c))"
proof -
  have anchor: "entry_createdAt e' = entry_createdAt entry
      \<and> expirationTime (ttlMinutes (runStoreOps ops s)) e' = expirationTime (ttlMinutes s) entry"
    if "carts (runStoreOps ops s) cid = Some e'" for e'
    using runStoreOps_anchor [OF assms that]
      expirationTime_anchor [OF runStoreOps_anchor [OF assms that], of "ttlMinutes s"]
    by (simp add: runStoreOps_ttl)
  have read: "fst (client_getCart now (runStoreOps ops s) cid) =
      (case carts (runStoreOps ops s) cid of
         None \<Rightarrow> Inr None
       | Some e' \<Rightarrow> if expirationTime (ttlMinutes s) entry < now
                    then Inl (CartExpiredError cid) else Inr (Some (entry_cart e')))" for now
    using anchor
    by (auto simp: client_getCart_def isExpired_def split: option.splits)
  have survive: "(\<exists>e'. carts (runStoreOps ops s) cid = Some e') \<and>
      (\<forall>now. fst (client_getCart now (runStoreOps ops s) cid) = Inl (CartExpiredError cid)
              \<longleftrightarrow> expirationTime (ttlMinutes s) entry < now)"
    if "\<forall>(t, op) \<in> set ops. t \<le> expirationTime (ttlMinutes s) entry"
    using runStoreOps_survives [OF assms that] by (auto simp: read split: if_splits)
  have late: "fst (client_getCart now (runStoreOps ops s) cid) \<noteq> Inr (Some c)"
    if "expirationTime (ttlMinutes s) entry < now" for now c
    using that by (simp add: read split: option.splits)
  from anchor survive late show ?thesis by blast
qed


theorem expiration_anchor_fixed_witness:
  "carts (client demoWorld) demoId = Some \<lparr>entry_cart = demoCart, entry_createdAt = 1000\<rparr>
   \<and> list_all (\<lambda>(t, op). t \<le> 301000) demoOps
   \<and> (\<exists>e'. carts (runStoreOps demoOps (client demoWorld)) demoId = Some e'
          \<and> entry_createdAt e' = 1000)
   \<and> fst (client_getCart 301001 (runStoreOps demoOps (client demoWorld)) demoId)
        = Inl (CartExpiredError demoId)"
proof -
  have times: "\<forall>(t, op) \<in> set demoOps. t \<le> 301000"
    by (simp add: demoOps_def)
  then have all: "list_all (\<lambda>(t, op). t \<le> 301000) demoOps"
    by (simp add: list_all_iff)
  note fixed = expiration_anchor_fixed [OF demo_entry, of demoOps]
  from times fixed obtain e' where e': "carts (runStoreOps demoOps (client demoWorld)) demoId = Some e'"
    by (auto simp: demo_ttl demo_deadline)
  with fixed have "entry_createdAt e' = 1000"
    by simp
  with e' have ex: "\<exists>e'. carts (runStoreOps demoOps (client demoWorld)) demoId = Some e'
      \<and> entry_createdAt e' = 1000"
    by blast
  from times fixed have "fst (client_getCart 301001 (runStoreOps demoOps (client demoWorld)) demoId)
      = Inl (CartExpiredError demoId)"
    by (simp add: demo_ttl demo_deadline)
  with demo_entry all ex show ?thesis by blast
qed

text \<open>
  Claim C10. Whether an access finds an entry expired is decided by the \<open>createdAt\<close>
  held in the entry and the store's \<open>ttlMinutes\<close> alone: replacing the stored cart (and so
  its \<open>expiresAt\<close>) by any other leaves the decision as it is, and the cart passed to a
  write is not consulted either. The boundary is strict: an access at exactly the
  expiration time still succeeds. The anchor is the \<open>createdAt\<close> of the cart at
  \<open>client_createCart\<close>.
\<close>

theorem expiry_decided_by_entry_anchor:
  assumes "carts s cid = Some entry"
  shows "(isExpired (ttlMinutes s) now entry \<longleftrightarrow>
            Date_new (fl (of_int (entry_createdAt entry) + fl (fl (ttlMinutes s * 60) * 1000))) < now)
       \<and> (\<forall>c. isExpired (ttlMinutes s) now (entry\<lparr>entry_cart := c\<rparr>)
                = isExpired (ttlMinutes s) now entry)
       \<and> fst (client_getCart now s cid)
            = (if isExpired (ttlMinutes s) now entry then Inl (CartExpiredError cid)
               else Inr (Some (entry_cart entry)))
       \<and> (\<forall>cart. cartId cart = cid \<longrightarrow>
              fst (client_updateCart now s cart)
                = (if isExpired (ttlMinutes s) now entry then Inl (CartExpiredError cid)
                   else Inr cart))
       \<and> (now = expirationTime (ttlMinutes s) entry \<longrightarrow>
              client_getCart now s cid = (Inr (Some (entry_cart entry)), s) \<and>
              (\<forall>cart. cartId cart = cid \<longrightarrow> fst (client_updateCart now s cart) = Inr cart))
       \<and> carts (snd (client_createCart s0 c)) (cartId c)
            = Some \<lparr>entry_cart = c, entry_createdAt = createdAt c\<rparr>"
  using assms
  by (simp add: isExpired_def expirationTime_def client_getCart_def client_updateCart_def
      client_createCart_def)


theorem expiry_decided_by_entry_anchor_witness:
  "carts staleStore demoId
     = Some \<lparr>entry_cart = demoCart\<lparr>expiresAt := 0\<rparr>, entry_createdAt = 1000\<rparr>
   \<and> cartId demoCart = demoId
   \<and> 301000 = expirationTime (ttlMinutes staleStore)
                  \<lparr>entry_cart = demoCart\<lparr>expiresAt := 0\<rparr>, entry_createdAt = 1000\<rparr>
   \<and> client_getCart 301000 staleStore demoId
        = (Inr (Some (demoCart\<lparr>expiresAt := 0\<rparr>)), staleStore)
   \<and> fst (client_updateCart 301000 staleStore demoCart) = Inr demoCart
   \<and> fst (client_getCart 301001 staleStore demoId) = Inl (CartExpiredError demoId)"
proof -
  have e: "carts staleStore demoId
      = Some \<lparr>entry_cart = demoCart\<lparr>expiresAt := 0\<rparr>, entry_createdAt = 1000\<rparr>"
    by (simp add: staleStore_def)
  have t: "ttlMinutes staleStore = 5"
    by (simp add: staleStore_def)
  have c: "cartId demoCart = demoId"
    by (simp add: demoCart_eq)
  note edge = expiry_decided_by_entry_anchor [OF e, of 301000]
  note late = expiry_decided_by_entry_anchor [OF e, of 301001]
  show ?thesis
    using e c edge late by (simp add: t demo_deadline isExpired_def)
qed

section \<open>Reading through the service\<close>

lemma findIndex_range: "- 1 \<le> findIndex P xs \<and> findIndex P xs < int (length xs)"
  by (induction xs) (auto simp: Let_def)

lemma findIndex_none: "find P xs = None \<Longrightarrow> findIndex P xs = - 1"
  by (induction xs) (auto simp: Let_def split: if_splits)

lemma findIndex_some:
  "find P xs = Some x \<Longrightarrow> 0 \<le> findIndex P xs \<and> xs ! nat (findIndex P xs) = x"
proof (induction xs)
  case Nil
  then show ?case by simp
next
  case (Cons y ys)
  show ?case
  proof (cases "P y")
    case True
    with Cons.prems show ?thesis by simp
  next
    case False
    with Cons.prems have "find P ys = Some x" by simp
    from Cons.IH [OF this] False show ?thesis
      by (simp add: Let_def nat_add_distrib)
  qed
qed

lemma findIndex_neg_iff: "findIndex P xs < 0 \<longleftrightarrow> find P xs = None"
  using findIndex_none [of P xs] findIndex_some [of P xs]
  by (cases "find P xs") auto

lemma find_None_all: "find P xs = None \<longleftrightarrow> (\<forall>x \<in> set xs. \<not> P x)"
  by (auto simp: find_None_iff)

lemma getCart_live:
  assumes "carts (client w) cid = Some entry" and "uuidRegex_test cid"
    and "now \<le> expirationTime (ttlMinutes (client w)) entry"
  shows "getCart now w cid = (Inr (entry_cart entry), w)"
  using assms
  by (simp add: getCart_def client_getCart_def validateCartId_def isExpired_def)

lemma getCart_Inr:
  assumes "getCart now w cid = (Inr cart, w1)"
  shows "w1 = w \<and> uuidRegex_test cid \<and>
         (\<exists>entry. carts (client w) cid = Some entry \<and> entry_cart entry = cart \<and>
                  now \<le> expirationTime (ttlMinutes (client w)) entry)"
  using assms
  by (auto simp: getCart_def client_getCart_def validateCartId_def isExpired_def
      split: if_splits option.splits)

lemma getCart_Inl:
  assumes "getCart now w cid = (Inl e, w1)"
  shows "objects w1 = objects w \<and> arrays w1 = arrays w \<and>
         ttlMinutes (client w1) = ttlMinutes (client w) \<and>
         (\<forall>k v. carts (client w1) k = Some v \<longrightarrow> carts (client w) k = Some v)"
  using assms
  by (auto simp: getCart_def client_getCart_def validateCartId_def isExpired_def
      split: if_splits option.splits)

section \<open>Quantity validation\<close>

text \<open>
  Claim C5. For every cart id and every quantity that is not an integer or lies outside
  \<open>[minQty, maxQty]\<close>, \<open>addItem\<close> and \<open>updateItemQuantity\<close> fail with a
  \<open>ValidationError\<close> that is the same in every world, whatever the clock, the product or
  the item id, and they return the world as they found it: the check comes before any
  read of the store, so the failure is also what a missing or expired cart gets. With the
  default bounds, 0 and 100 are rejected and 1 and 99 pass \<open>validateQuantity\<close>.
\<close>

theorem quantity_checked_before_store:
  assumes "\<not> Number_isInteger q \<or> q < minQty svc \<or> maxQty svc < q"
  shows "(\<exists>m. \<forall>env w p.
            addItem svc env w cid \<lparr>req_product = p, req_quantity = q\<rparr>
              = (Inl (ValidationError m), w))
       \<and> (\<exists>m. \<forall>env w iid.
            updateItemQuantity svc env w cid iid q = (Inl (ValidationError m), w))
       \<and> validateQuantity defaultConfig 0 = Inl (ValidationError (QuantityMustBeBetween 1 99))
       \<and> validateQuantity defaultConfig 100 = Inl (ValidationError (QuantityMustBeBetween 1 99))
       \<and> validateQuantity defaultConfig 1 = Inr ()
       \<and> validateQuantity defaultConfig 99 = Inr ()"
proof -
  from assms have "\<exists>m. validateQuantity svc q = Inl (ValidationError m)"
    by (auto simp: validateQuantity_def)
  then obtain m where m: "validateQuantity svc q = Inl (ValidationError m)" ..
  define m' where "m' = (if uuidRegex_test cid then m else InvalidCartIdFormat)"
  have "addItem svc env w cid \<lparr>req_product = p, req_quantity = q\<rparr>
          = (Inl (ValidationError m'), w)" for env w p
    by (simp add: addItem_def validateCartId_def m m'_def)
  moreover have "updateItemQuantity svc env w cid iid q = (Inl (ValidationError m'), w)"
    for env w iid
    by (simp add: updateItemQuantity_def validateCartId_def m m'_def)
  moreover have "validateQuantity defaultConfig 0 = Inl (ValidationError (QuantityMustBeBetween 1 99))"
    "validateQuantity defaultConfig 100 = Inl (ValidationError (QuantityMustBeBetween 1 99))"
    "validateQuantity defaultConfig 1 = Inr ()" "validateQuantity defaultConfig 99 = Inr ()"
    by (simp_all add: validateQuantity_def defaultConfig_def Number_isInteger_def)
  ultimately show ?thesis by blast
qed

theorem quantity_checked_before_store_witness:
  "0 < minQty defaultConfig
   \<and> \<not> Number_isInteger (5 / 2)
   \<and> (\<exists>m. \<forall>env w p.
          addItem defaultConfig env w demoId \<lparr>req_product = p, req_quantity = 0\<rparr>
            = (Inl (ValidationError m), w))
   \<and> (\<exists>m. \<forall>env w iid.
          updateItemQuantity defaultConfig env w demoId iid (5 / 2) = (Inl (ValidationError m), w))"
proof -
  have below: "0 < minQty defaultConfig"
    by (simp add: defaultConfig_def)
  then have low: "\<not> Number_isInteger 0 \<or> 0 < minQty defaultConfig \<or> maxQty defaultConfig < 0"
    by simp
  have nonint: "\<not> Number_isInteger (5 / 2)"
    by code_simp
  then have frac: "\<not> Number_isInteger (5 / 2) \<or> 5 / 2 < minQty defaultConfig
      \<or> maxQty defaultConfig < 5 / 2" ..
  show ?thesis
    using below nonint quantity_checked_before_store [OF low, of demoId]
      quantity_checked_before_store [OF frac, of demoId]
    by blast
qed

section \<open>Evaluation of the sample cart with fifty units\<close>

lemma fl_100: "fl 100 = 100"
  by code_simp

lemma demoWorld50_objects:
  "objects demoWorld50 =
     [\<lparr>itemId = uuid demoEnv, product = demoProduct, quantity = 50, unitPrice = 10,
       totalPrice = 500, addedAt = 2001\<rparr>]"
  by code_simp

lemma demoWorld50_arrays: "arrays demoWorld50 = [[0]]"
  by code_simp

lemma demoWorld50_ttl: "ttlMinutes (client demoWorld50) = 5"
  by code_simp

lemma demoWorld50_entry:
  "carts (client demoWorld50) demoId =
     Some \<lparr>entry_cart = demoCart\<lparr>subtotal := 500, tax := 45, cartTotal := 545, updatedAt := 2002\<rparr>,
           entry_createdAt = 1000\<rparr>"
  by code_simp

section \<open>Merging into an existing item\<close>

lemma addItem_over_limit:
  assumes "carts (client w) cid = Some entry"
    and "t_get env \<le> expirationTime (ttlMinutes (client w)) entry"
    and "find (\<lambda>r. productId (product (objects w ! r)) = productId (req_product request))
           (arrays w ! items (entry_cart entry)) = Some r"
    and "maxQty svc < fl (quantity (objects w ! r) + req_quantity request)"
  shows "\<exists>m. addItem svc env w cid request = (Inl (ValidationError m), w)"
proof (cases "validateCartId cid")
  case (Inl e)
  then show ?thesis
    by (auto simp: addItem_def validateCartId_def split: if_splits)
next
  case (Inr u)
  then have id: "uuidRegex_test cid"
    by (simp add: validateCartId_def split: if_splits)
  show ?thesis
  proof (cases "validateQuantity svc (req_quantity request)")
    case (Inl e)
    then show ?thesis
      using Inr by (auto simp: addItem_def validateQuantity_def split: if_splits)
  next
    case q: (Inr u1)
    show ?thesis
    proof (cases "validateProduct (req_product request)")
      case (Inl e)
      then show ?thesis
        using Inr q by (auto simp: addItem_def validateProduct_def split: if_splits)
    next
      case p: (Inr u2)
      note idx = findIndex_some [OF assms(3)]
      show ?thesis
        using Inr q p idx assms(4)
        by (simp add: addItem_def getCart_live [OF assms(1) id assms(2)] Let_def)
    qed
  qed
qed


text \<open>
  Claim C2. Take a stored, live cart whose array holds an item for the requested product
  (\<open>r\<close> is the item the lookup of \<open>addItem\<close> finds). If the item's quantity plus the
  requested quantity, as the code adds them, exceeds \<open>maxQty\<close>, then \<open>addItem\<close> fails with
  a \<open>ValidationError\<close> and returns the world exactly as it was: the store, the item
  objects and the arrays are untouched, so the item keeps its quantity and total price and
  the cart its pricing fields. For whole quantities below \<open>2 ^ 53\<close> the code's sum
  is the exact sum, so the same holds whenever \<open>q0 + q > maxQty\<close>. No hypothesis on the
  id, the quantity or the product is needed: when one of them is invalid the call fails
  with a \<open>ValidationError\<close> even earlier.
\<close>

theorem rejected_merge_changes_nothing:
  assumes "carts (client w) cid = Some entry"
    and "t_get env \<le> expirationTime (ttlMinutes (client w)) entry"
    and "find (\<lambda>r. productId (product (objects w ! r)) = productId (req_product request))
           (arrays w ! items (entry_cart entry)) = Some r"
  shows "(maxQty svc < fl (quantity (objects w ! r) + req_quantity request) \<longrightarrow>
            (\<exists>m. addItem svc env w cid request = (Inl (ValidationError m), w)))
       \<and> (Number_isInteger (quantity (objects w ! r)) \<longrightarrow>
          Number_isInteger (req_quantity request) \<longrightarrow>
          \<bar>quantity (objects w ! r) + req_quantity request\<bar> < 2 ^ 53 \<longrightarrow>
          maxQty svc < quantity (objects w ! r) + req_quantity request \<longrightarrow>
            (\<exists>m. addItem svc env w cid request = (Inl (ValidationError m), w)))"
  using addItem_over_limit [OF assms]
    fl_sum_integers [of "quantity (objects w ! r)" "req_quantity request"]
  by auto

theorem rejected_merge_changes_nothing_witness:
  "carts (client demoWorld50) demoId =
     Some \<lparr>entry_cart = demoCart\<lparr>subtotal := 500, tax := 45, cartTotal := 545, updatedAt := 2002\<rparr>,
           entry_createdAt = 1000\<rparr>
   \<and> quantity (objects demoWorld50 ! 0) = 50
   \<and> maxQty defaultConfig < 50 + 50
   \<and> (\<exists>m. addItem defaultConfig demoEnv demoWorld50 demoId
              \<lparr>req_product = demoProduct, req_quantity = 50\<rparr>
            = (Inl (ValidationError m), demoWorld50))"
proof -
  let ?e = "\<lparr>entry_cart = demoCart\<lparr>subtotal := 500, tax := 45, cartTotal := 545, updatedAt := 2002\<rparr>,
             entry_createdAt = 1000\<rparr>"
  let ?req = "\<lparr>req_product = demoProduct, req_quantity = 50\<rparr>"
  have live: "t_get demoEnv \<le> expirationTime (ttlMinutes (client demoWorld50)) ?e"
    by (simp add: demoWorld50_ttl demo_deadline demoEnv_def)
  have found: "find (\<lambda>r. productId (product (objects demoWorld50 ! r)) = productId (req_product ?req))
      (arrays demoWorld50 ! items (entry_cart ?e)) = Some 0"
    by (simp add: demoWorld50_arrays demoWorld50_objects demoCart_eq)
  have whole: "Number_isInteger 50"
    by (simp add: Number_isInteger_def)
  have over: "maxQty defaultConfig < 50 + 50"
    by (simp add: defaultConfig_def)
  from rejected_merge_changes_nothing [OF demoWorld50_entry live found, of defaultConfig]
    whole over
  have "\<exists>m. addItem defaultConfig demoEnv demoWorld50 demoId ?req
      = (Inl (ValidationError m), demoWorld50)"
    by (simp add: demoWorld50_objects)
  with over show ?thesis
    by (simp add: demoWorld50_entry demoWorld50_objects)
qed

lemma fl_0: "fl 0 = 0"
  by (simp add: fl_def)

lemma Math_round_0: "Math_round 0 = 0"
  by code_simp

lemma round2_0: "round2 0 = 0"
  by (simp add: round2_def fl_0 Math_round_0)

lemma calculatePricing_eq:
  "calculatePricing now w cart =
     cart\<lparr>subtotal := round2 (rawSubtotal w cart),
          tax := round2 (fl (rawSubtotal w cart * TAX_RATE)),
          cartTotal := round2 (fl (rawSubtotal w cart + round2 (fl (rawSubtotal w cart * TAX_RATE)))),
          updatedAt := now\<rparr>"
  by (simp add: calculatePricing_def round2_def rawSubtotal_def Let_def)

lemma calculatePricing_fields:
  "cartId (calculatePricing now w cart) = cartId cart"
  "items (calculatePricing now w cart) = items cart"
  "createdAt (calculatePricing now w cart) = createdAt cart"
  "expiresAt (calculatePricing now w cart) = expiresAt cart"
  "metadata (calculatePricing now w cart) = metadata cart"
  "updatedAt (calculatePricing now w cart) = now"
  by (simp_all add: calculatePricing_eq)

section \<open>Pricing\<close>

text \<open>
  The total is not always \<open>round2\<close> of the rounded subtotal plus the rounded tax: for a
  single item at \<^verbatim>\<open>1.005\<close> the code returns subtotal 1, tax 0.09 and total 1.1, while
  \<open>round2 (1 + 0.09)\<close> is 1.09.
\<close>

lemma odd_raw: "rawSubtotal oddWorld oddCart = 1131529406376837 / 1125899906842624"
  by code_simp

lemma odd_subtotal: "round2 (1131529406376837 / 1125899906842624) = 1"
  by code_simp

lemma odd_tax:
  "round2 (fl (1131529406376837 / 1125899906842624 * TAX_RATE))
     = 3242591731706757 / 36028797018963968"
  by code_simp

lemma odd_total:
  "round2 (fl (1131529406376837 / 1125899906842624 + 3242591731706757 / 36028797018963968))
     = 2476979795053773 / 2251799813685248"
  by code_simp

lemma odd_claimed:
  "round2 (fl (39271388750670725 / 36028797018963968)) = 4908923593833841 / 4503599627370496"
  by code_simp

lemma oddCart_priced:
  "calculatePricing 1 oddWorld oddCart =
     oddCart\<lparr>subtotal := 1,
              tax := 3242591731706757 / 36028797018963968,
              cartTotal := 2476979795053773 / 2251799813685248,
              updatedAt := 1\<rparr>"
  by (simp only: calculatePricing_eq odd_raw odd_subtotal odd_tax odd_total)

theorem pricing_total_counterexample:
  "cartTotal (calculatePricing 1 oddWorld oddCart)
     \<noteq> round2 (fl (subtotal (calculatePricing 1 oddWorld oddCart)
                      + tax (calculatePricing 1 oddWorld oddCart)))"
  unfolding oddCart_priced by (simp add: odd_claimed)

text \<open>
  Claim C1, as the code has it. \<open>calculatePricing\<close> returns the cart with
  \<open>subtotal = round2 raw\<close>, \<open>tax = round2 (raw * 0.09)\<close> and
  \<open>total = round2 (raw + tax)\<close>, where \<open>raw\<close> is the unrounded sum of the items' total
  prices and \<open>tax\<close> the rounded tax: the total is computed from the unrounded subtotal.
  Whenever the raw sum is itself unchanged by \<open>round2\<close>, this total is
  \<open>round2 (subtotal + tax)\<close> of the two rounded fields. A cart with no items gets
  subtotal, tax and total 0. \<open>updatedAt\<close> becomes the time of the call and the other
  fields are kept.
\<close>

theorem pricing_stages:
  "calculatePricing now w cart =
     cart\<lparr>subtotal := round2 (rawSubtotal w cart),
          tax := round2 (fl (rawSubtotal w cart * TAX_RATE)),
          cartTotal := round2 (fl (rawSubtotal w cart + round2 (fl (rawSubtotal w cart * TAX_RATE)))),
          updatedAt := now\<rparr>
   \<and> (round2 (rawSubtotal w cart) = rawSubtotal w cart \<longrightarrow>
        cartTotal (calculatePricing now w cart)
          = round2 (fl (subtotal (calculatePricing now w cart) + tax (calculatePricing now w cart))))
   \<and> (cart_items w cart = [] \<longrightarrow>
        subtotal (calculatePricing now w cart) = 0 \<and>
        tax (calculatePricing now w cart) = 0 \<and>
        cartTotal (calculatePricing now w cart) = 0)"
  by (simp add: calculatePricing_eq rawSubtotal_def fl_0 round2_0)

lemma fl_500: "fl 500 = 500"
  by code_simp

lemma demoWorld50_raw: "rawSubtotal demoWorld50 demoCart = 500"
  by (simp add: rawSubtotal_def cart_items_def demoWorld50_arrays demoWorld50_objects
      demoCart_eq fl_500)

lemma round2_500: "round2 500 = 500"
  by code_simp

theorem pricing_stages_witness:
  "cart_items demoWorld demoCart = []
   \<and> subtotal (calculatePricing 5000 demoWorld demoCart) = 0
   \<and> tax (calculatePricing 5000 demoWorld demoCart) = 0
   \<and> cartTotal (calculatePricing 5000 demoWorld demoCart) = 0
   \<and> round2 (rawSubtotal demoWorld50 demoCart) = rawSubtotal demoWorld50 demoCart
   \<and> cartTotal (calculatePricing 5000 demoWorld50 demoCart)
        = round2 (fl (subtotal (calculatePricing 5000 demoWorld50 demoCart)
                      + tax (calculatePricing 5000 demoWorld50 demoCart)))"
proof -
  have empty: "cart_items demoWorld demoCart = []"
    by (simp add: cart_items_def demoWorld_eq demoCart_eq)
  have cents: "round2 (rawSubtotal demoWorld50 demoCart) = rawSubtotal demoWorld50 demoCart"
    by (simp add: demoWorld50_raw round2_500)
  show ?thesis
    using empty cents pricing_stages [of 5000 demoWorld demoCart]
      pricing_stages [of 5000 demoWorld50 demoCart]
    by blast
qed

section \<open>What a mutation does\<close>

lemma client_updateCart_Inr:
  assumes "client_updateCart now s cart = (Inr c', s')"
  shows "c' = cart \<and>
         (\<exists>entry. carts s (cartId cart) = Some entry \<and>
                  now \<le> expirationTime (ttlMinutes s) entry \<and>
                  s' = s\<lparr>carts := (carts s)(cartId cart \<mapsto> entry\<lparr>entry_cart := cart\<rparr>)\<rparr>)"
  using assms
  by (auto simp: client_updateCart_def isExpired_def split: option.splits if_splits)

lemma repriceAndUpdate_heap:
  "objects (snd (repriceAndUpdate env w cart)) = objects w"
  "arrays (snd (repriceAndUpdate env w cart)) = arrays w"
  by (simp_all add: repriceAndUpdate_def split: prod.splits)

lemma repriceAndUpdate_Inr:
  assumes "repriceAndUpdate env w cart = (Inr c', w')"
  shows "c' = calculatePricing (t_priced env) w cart \<and> objects w' = objects w \<and>
         arrays w' = arrays w \<and>
         (\<exists>entry. carts (client w) (cartId cart) = Some entry \<and>
                  t_update env \<le> expirationTime (ttlMinutes (client w)) entry \<and>
                  client w' = (client w)\<lparr>carts := (carts (client w))
                                 (cartId cart \<mapsto> entry\<lparr>entry_cart := c'\<rparr>)\<rparr>)"
proof -
  obtain r s where u: "client_updateCart (t_update env) (client w)
      (calculatePricing (t_priced env) w cart) = (r, s)"
    by (cases "client_updateCart (t_update env) (client w) (calculatePricing (t_priced env) w cart)")
  with assms have r: "r = Inr c'" and w': "w' = w\<lparr>client := s\<rparr>"
    by (simp_all add: repriceAndUpdate_def)
  from client_updateCart_Inr [OF u [unfolded r]] w'
  show ?thesis
    by (auto simp: calculatePricing_fields)
qed

lemma addItem_Inr_pre:
  assumes "addItem svc env w cid request = (Inr c', w')"
  shows "uuidRegex_test cid \<and> validateQuantity svc (req_quantity request) = Inr () \<and>
         validateProduct (req_product request) = Inr () \<and>
         (\<exists>entry. carts (client w) cid = Some entry \<and>
                  t_get env \<le> expirationTime (ttlMinutes (client w)) entry)"
proof -
  from assms have id: "validateCartId cid = Inr ()"
    by (cases "validateCartId cid") (simp_all add: addItem_def)
  from assms id have q: "validateQuantity svc (req_quantity request) = Inr ()"
    by (cases "validateQuantity svc (req_quantity request)") (simp_all add: addItem_def)
  from assms id q have p: "validateProduct (req_product request) = Inr ()"
    by (cases "validateProduct (req_product request)") (simp_all add: addItem_def)
  obtain res w1 where g: "getCart (t_get env) w cid = (res, w1)"
    by (cases "getCart (t_get env) w cid")
  from assms id q p g obtain cart where "res = Inr cart"
    by (cases res) (simp_all add: addItem_def)
  with g getCart_Inr [of "t_get env" w cid cart w1] id q p show ?thesis
    by (auto simp: validateCartId_def split: if_splits)
qed

lemma addItem_unfold:
  assumes "uuidRegex_test cid"
    and "validateQuantity svc (req_quantity request) = Inr ()"
    and "validateProduct (req_product request) = Inr ()"
    and "carts (client w) cid = Some entry"
    and "t_get env \<le> expirationTime (ttlMinutes (client w)) entry"
  shows "addItem svc env w cid request =
    (case find (\<lambda>r. productId (product (objects w ! r)) = productId (req_product request))
            (arrays w ! items (entry_cart entry)) of
       Some r \<Rightarrow>
         if maxQty svc < fl (quantity (objects w ! r) + req_quantity request)
         then (Inl (ValidationError
                 (TotalQuantityWouldExceed (name (req_product request)) (maxQty svc))), w)
         else repriceAndUpdate env
                (w\<lparr>objects := (objects w)
                    [r := (objects w ! r)
                       \<lparr>quantity := fl (quantity (objects w ! r) + req_quantity request),
                        totalPrice := round2 (fl (unitPrice (objects w ! r)
                                        * fl (quantity (objects w ! r) + req_quantity request)))\<rparr>]\<rparr>)
                (entry_cart entry)
     | None \<Rightarrow>
         repriceAndUpdate env
           (w\<lparr>objects := objects w @
                 [\<lparr>itemId = uuid env, product = req_product request,
                   quantity = req_quantity request, unitPrice = price (req_product request),
                   totalPrice = round2 (fl (price (req_product request) * req_quantity request)),
                   addedAt = t_added env\<rparr>],
               arrays := (arrays w)
                 [items (entry_cart entry) :=
                    arrays w ! items (entry_cart entry) @ [length (objects w)]]\<rparr>)
           (entry_cart entry))"
proof (cases "find (\<lambda>r. productId (product (objects w ! r)) = productId (req_product request))
            (arrays w ! items (entry_cart entry))")
  case None
  from findIndex_none [OF None] show ?thesis
    using assms(1-3)
    by (simp add: addItem_def validateCartId_def getCart_live [OF assms(4,1,5)] Let_def None
        round2_def)
next
  case (Some r)
  from findIndex_some [OF Some] show ?thesis
    using assms(1-3)
    by (simp add: addItem_def validateCartId_def getCart_live [OF assms(4,1,5)] Let_def Some
        round2_def)
qed

section \<open>Merged quantities and the price snapshot\<close>

lemma fl_2: "fl 2 = 2"
  by code_simp

lemma cheapTwice_result:
  "fst cheapTwice = Inr (demoCart\<lparr>updatedAt := 3002\<rparr>)"
  by code_simp

lemma cheapTwice_objects:
  "objects (snd cheapTwice) =
     [\<lparr>itemId = uuid demoEnv, product = cheapProduct, quantity = 2,
       unitPrice = 1152921504606847 / 1152921504606846976, totalPrice = 0, addedAt = 2001\<rparr>]"
  by code_simp

lemma cheapTwice_arrays: "arrays (snd cheapTwice) = [[0]]"
  by code_simp

lemma cheap_doubled:
  "fl (1152921504606847 / 576460752303423488) = 1152921504606847 / 576460752303423488"
  by code_simp

text \<open>
  Adding quantity 1 twice of a product priced \<^verbatim>\<open>0.001\<close> (a price \<open>validateProduct\<close>
  accepts) gives one item with quantity 2 whose total price is 0, not twice the unit
  price: the total is rounded to two decimals.
\<close>

theorem merged_total_counterexample:
  "fst cheapTwice = Inr (demoCart\<lparr>updatedAt := 3002\<rparr>)
   \<and> length (cart_items (snd cheapTwice) (demoCart\<lparr>updatedAt := 3002\<rparr>)) = 1
   \<and> quantity (cart_items (snd cheapTwice) (demoCart\<lparr>updatedAt := 3002\<rparr>) ! 0) = 2
   \<and> totalPrice (cart_items (snd cheapTwice) (demoCart\<lparr>updatedAt := 3002\<rparr>) ! 0)
       \<noteq> fl (unitPrice (cart_items (snd cheapTwice) (demoCart\<lparr>updatedAt := 3002\<rparr>) ! 0) * 2)"
  by (simp add: cheapTwice_result cart_items_def cheapTwice_arrays cheapTwice_objects
      demoCart_eq cheap_doubled)


lemma addItem_merge:
  assumes "addItem svc env w cid request = (Inr c', w')"
    and "carts (client w) cid = Some entry"
    and "find (\<lambda>r. productId (product (objects w ! r)) = productId (req_product request))
           (arrays w ! items (entry_cart entry)) = Some r"
    and "r < length (objects w)"
    and "cartId (entry_cart entry) = cid"
  shows "fl (quantity (objects w ! r) + req_quantity request) \<le> maxQty svc
       \<and> items c' = items (entry_cart entry) \<and> arrays w' = arrays w
       \<and> length (objects w') = length (objects w)
       \<and> objects w' ! r = (objects w ! r)
            \<lparr>quantity := fl (quantity (objects w ! r) + req_quantity request),
             totalPrice := round2 (fl (unitPrice (objects w ! r)
                             * fl (quantity (objects w ! r) + req_quantity request)))\<rparr>
       \<and> (\<forall>k. k \<noteq> r \<longrightarrow> objects w' ! k = objects w ! k)
       \<and> map product (cart_items w' c') = map product (cart_items w (entry_cart entry))
       \<and> carts (client w') cid = Some (entry\<lparr>entry_cart := c'\<rparr>)
       \<and> (Number_isInteger (quantity (objects w ! r)) \<longrightarrow>
          \<bar>quantity (objects w ! r) + req_quantity request\<bar> < 2 ^ 53 \<longrightarrow>
            quantity (objects w' ! r) = quantity (objects w ! r) + req_quantity request)"
proof -
  note pre = addItem_Inr_pre [OF assms(1)]
  from pre assms(2) have live: "t_get env \<le> expirationTime (ttlMinutes (client w)) entry"
    by auto
  let ?q = "fl (quantity (objects w ! r) + req_quantity request)"
  let ?it = "(objects w ! r)\<lparr>quantity := ?q,
      totalPrice := round2 (fl (unitPrice (objects w ! r) * ?q))\<rparr>"
  let ?w1 = "w\<lparr>objects := (objects w)[r := ?it]\<rparr>"
  from addItem_unfold [of cid svc request w entry env] pre assms(2) live
  have unf: "addItem svc env w cid request =
      (if maxQty svc < ?q
       then (Inl (ValidationError
               (TotalQuantityWouldExceed (name (req_product request)) (maxQty svc))), w)
       else repriceAndUpdate env ?w1 (entry_cart entry))"
    by (simp add: assms(3))
  with assms(1) have le: "?q \<le> maxQty svc"
    by (auto split: if_splits)
  with unf assms(1) have rp: "repriceAndUpdate env ?w1 (entry_cart entry) = (Inr c', w')"
    by simp
  note fin = repriceAndUpdate_Inr [OF rp]
  from fin have c': "c' = calculatePricing (t_priced env) ?w1 (entry_cart entry)"
    and ob: "objects w' = (objects w)[r := ?it]" and ar: "arrays w' = arrays w"
    by simp_all
  from fin assms(2,5) have st: "carts (client w') cid = Some (entry\<lparr>entry_cart := c'\<rparr>)"
    by auto
  have itc: "items c' = items (entry_cart entry)"
    by (simp add: c' calculatePricing_fields)
  have prod: "product (objects w' ! k) = product (objects w ! k)" for k
    using assms(4) by (cases "k = r") (simp_all add: ob)
  have same: "map product (cart_items w' c') = map product (cart_items w (entry_cart entry))"
    by (simp add: cart_items_def itc ar prod)
  have upd: "objects w' ! r = ?it" and len: "length (objects w') = length (objects w)"
    and other: "\<forall>k. k \<noteq> r \<longrightarrow> objects w' ! k = objects w ! k"
    using assms(4) by (simp_all add: ob)
  have whole: "Number_isInteger (req_quantity request)"
    using pre by (auto simp: validateQuantity_def split: if_splits)
  have exact: "quantity (objects w' ! r) = quantity (objects w ! r) + req_quantity request"
    if "Number_isInteger (quantity (objects w ! r))"
      and "\<bar>quantity (objects w ! r) + req_quantity request\<bar> < 2 ^ 53"
    using fl_sum_integers [OF that(1) whole that(2)] by (simp add: upd)
  from le itc ar len upd other same st exact show ?thesis
    by blast
qed


lemma addItem_first:
  assumes "addItem svc env w cid request = (Inr c', w')"
    and "carts (client w) cid = Some entry"
    and "cartId (entry_cart entry) = cid"
    and "find (\<lambda>r. productId (product (objects w ! r)) = productId (req_product request))
           (arrays w ! items (entry_cart entry)) = None"
  shows "items c' = items (entry_cart entry)
       \<and> objects w' = objects w @
             [\<lparr>itemId = uuid env, product = req_product request,
               quantity = req_quantity request, unitPrice = price (req_product request),
               totalPrice = round2 (fl (price (req_product request) * req_quantity request)),
               addedAt = t_added env\<rparr>]
       \<and> arrays w' = (arrays w)
             [items (entry_cart entry) :=
                arrays w ! items (entry_cart entry) @ [length (objects w)]]
       \<and> cartId c' = cid
       \<and> carts (client w') cid = Some (entry\<lparr>entry_cart := c'\<rparr>)"
proof -
  note pre = addItem_Inr_pre [OF assms(1)]
  from pre assms(2) have live: "t_get env \<le> expirationTime (ttlMinutes (client w)) entry"
    by auto
  from addItem_unfold [of cid svc request w entry env] pre assms(2) live assms(1)
  have rp: "repriceAndUpdate env
      (w\<lparr>objects := objects w @
            [\<lparr>itemId = uuid env, product = req_product request,
              quantity = req_quantity request, unitPrice = price (req_product request),
              totalPrice = round2 (fl (price (req_product request) * req_quantity request)),
              addedAt = t_added env\<rparr>],
          arrays := (arrays w)
            [items (entry_cart entry) :=
               arrays w ! items (entry_cart entry) @ [length (objects w)]]\<rparr>)
      (entry_cart entry) = (Inr c', w')"
    by (simp add: assms(4))
  from repriceAndUpdate_Inr [OF rp] assms(2,3) show ?thesis
    by (auto simp: calculatePricing_fields)
qed

lemma addItem_twice:
  assumes e0: "carts (client w0) cid = Some e0"
    and cid: "cartId (entry_cart e0) = cid"
    and a: "items (entry_cart e0) < length (arrays w0)"
    and empty: "arrays w0 ! items (entry_cart e0) = []"
    and same: "productId p2 = productId p1"
    and first: "addItem svc env1 w0 cid \<lparr>req_product = p1, req_quantity = 1\<rparr> = (Inr c1, w1)"
    and second: "addItem svc env2 w1 cid \<lparr>req_product = p2, req_quantity = 1\<rparr> = (Inr c2, w2)"
  shows "cart_items w2 c2 =
           [\<lparr>itemId = uuid env1, product = p1, quantity = 2, unitPrice = price p1,
             totalPrice = round2 (fl (price p1 * 2)), addedAt = t_added env1\<rparr>]"
proof -
  let ?n = "length (objects w0)"
  let ?it = "\<lparr>itemId = uuid env1, product = p1, quantity = 1, unitPrice = price p1,
              totalPrice = round2 (fl (price p1 * 1)), addedAt = t_added env1\<rparr>"
  have none: "find (\<lambda>r. productId (product (objects w0 ! r))
        = productId (req_product \<lparr>req_product = p1, req_quantity = 1\<rparr>))
      (arrays w0 ! items (entry_cart e0)) = None"
    by (simp add: empty)
  from addItem_first [OF first e0 cid none]
  have i1: "items c1 = items (entry_cart e0)"
    and o1: "objects w1 = objects w0 @ [?it]"
    and a1: "arrays w1 = (arrays w0)[items (entry_cart e0) := [?n]]"
    and c1: "cartId c1 = cid"
    and s1: "carts (client w1) cid = Some (e0\<lparr>entry_cart := c1\<rparr>)"
    by (simp_all add: empty)
  have arr1: "arrays w1 ! items c1 = [?n]"
    using a by (simp add: i1 a1)
  have obj1: "objects w1 ! ?n = ?it"
    by (simp add: o1)
  have found: "find (\<lambda>r. productId (product (objects w1 ! r))
        = productId (req_product \<lparr>req_product = p2, req_quantity = 1\<rparr>))
      (arrays w1 ! items (entry_cart (e0\<lparr>entry_cart := c1\<rparr>))) = Some ?n"
    by (simp add: arr1 obj1 same)
  have n: "?n < length (objects w1)"
    by (simp add: o1)
  have c1': "cartId (entry_cart (e0\<lparr>entry_cart := c1\<rparr>)) = cid"
    by (simp add: c1)
  from addItem_merge [OF second s1 found n c1']
  have i2: "items c2 = items c1" and a2: "arrays w2 = arrays w1"
    and o2: "objects w2 ! ?n = (objects w1 ! ?n)
        \<lparr>quantity := fl (quantity (objects w1 ! ?n) + 1),
         totalPrice := round2 (fl (unitPrice (objects w1 ! ?n)
                         * fl (quantity (objects w1 ! ?n) + 1)))\<rparr>"
    by simp_all
  have "cart_items w2 c2 = [objects w2 ! ?n]"
    using arr1 by (simp add: cart_items_def i2 a2)
  then show ?thesis
    by (simp add: o2 obj1 fl_2)
qed



text \<open>
  Claim C4, as the code has it. When \<open>addItem\<close> succeeds on a stored cart whose lookup
  finds an item \<open>r\<close> for the requested product, the merged quantity is within \<open>maxQty\<close>,
  the cart keeps its array and the array its items (the products of the cart's items are
  the same list as before, so there is still exactly one item for the product if there
  was one), the item's quantity becomes the sum (the exact sum for whole quantities below
  \<open>2 ^ 53\<close>), and its total price is \<open>round2\<close> of
  the item's own \<open>unitPrice\<close> times the new quantity: the snapshot taken at the first
  add, whatever price the new request carries. The updated cart is what the store holds.
  In particular, adding quantity 1 twice to an empty cart yields a single item with
  quantity 2, the unit price of the first request, and total price
  \<open>round2 (unitPrice * 2)\<close>.
\<close>

theorem merge_keeps_snapshot_price:
  "(addItem svc env w cid request = (Inr c', w') \<longrightarrow>
    carts (client w) cid = Some entry \<longrightarrow>
    cartId (entry_cart entry) = cid \<longrightarrow>
    find (\<lambda>r. productId (product (objects w ! r)) = productId (req_product request))
      (arrays w ! items (entry_cart entry)) = Some r \<longrightarrow>
    r < length (objects w) \<longrightarrow>
      fl (quantity (objects w ! r) + req_quantity request) \<le> maxQty svc
      \<and> items c' = items (entry_cart entry) \<and> arrays w' = arrays w
      \<and> length (objects w') = length (objects w)
      \<and> objects w' ! r = (objects w ! r)
           \<lparr>quantity := fl (quantity (objects w ! r) + req_quantity request),
            totalPrice := round2 (fl (unitPrice (objects w ! r)
                            * fl (quantity (objects w ! r) + req_quantity request)))\<rparr>
      \<and> (\<forall>k. k \<noteq> r \<longrightarrow> objects w' ! k = objects w ! k)
      \<and> map product (cart_items w' c') = map product (cart_items w (entry_cart entry))
      \<and> carts (client w') cid = Some (entry\<lparr>entry_cart := c'\<rparr>)
      \<and> (Number_isInteger (quantity (objects w ! r)) \<longrightarrow>
         \<bar>quantity (objects w ! r) + req_quantity request\<bar> < 2 ^ 53 \<longrightarrow>
           quantity (objects w' ! r) = quantity (objects w ! r) + req_quantity request))
   \<and> (carts (client ws) cid = Some es \<longrightarrow>
      cartId (entry_cart es) = cid \<longrightarrow>
      items (entry_cart es) < length (arrays ws) \<longrightarrow>
      arrays ws ! items (entry_cart es) = [] \<longrightarrow>
      productId pb = productId pa \<longrightarrow>
      addItem svc enva ws cid \<lparr>req_product = pa, req_quantity = 1\<rparr> = (Inr ca, wa) \<longrightarrow>
      addItem svc envb wa cid \<lparr>req_product = pb, req_quantity = 1\<rparr> = (Inr cb, wb) \<longrightarrow>
        cart_items wb cb =
          [\<lparr>itemId = uuid enva, product = pa, quantity = 2, unitPrice = price pa,
            totalPrice = round2 (fl (price pa * 2)), addedAt = t_added enva\<rparr>])"
  using addItem_merge [of svc env w cid request c' w' entry r]
    addItem_twice [of ws cid es pb pa svc enva ca wa envb cb wb]
  by blast


lemma demoMerged_result:
  "fst demoMerged =
     Inr (demoCart\<lparr>subtotal := 990, tax := 3134927553114931 / 35184372088832,
                   cartTotal := 2372965995066163 / 2199023255552, updatedAt := 3002\<rparr>)"
  by code_simp

lemma cheapOnce_result: "fst cheapOnce = Inr (demoCart\<lparr>updatedAt := 2002\<rparr>)"
  by code_simp

theorem merge_keeps_snapshot_price_witness:
  "carts (client demoWorld50) demoId
     = Some \<lparr>entry_cart = demoCart\<lparr>subtotal := 500, tax := 45, cartTotal := 545, updatedAt := 2002\<rparr>,
             entry_createdAt = 1000\<rparr>
   \<and> unitPrice (objects demoWorld50 ! 0) = 10
   \<and> quantity (objects demoWorld50 ! 0) = 50
   \<and> (\<exists>c'. demoMerged = (Inr c', snd demoMerged))
   \<and> objects (snd demoMerged) ! 0 = (objects demoWorld50 ! 0)
        \<lparr>quantity := fl (50 + 49), totalPrice := round2 (fl (10 * fl (50 + 49)))\<rparr>
   \<and> carts (client demoWorld) demoId = Some \<lparr>entry_cart = demoCart, entry_createdAt = 1000\<rparr>
   \<and> arrays demoWorld ! items demoCart = []
   \<and> (\<exists>c1 c2. cheapOnce = (Inr c1, snd cheapOnce) \<and> cheapTwice = (Inr c2, snd cheapTwice) \<and>
        cart_items (snd cheapTwice) c2 =
          [\<lparr>itemId = uuid demoEnv, product = cheapProduct, quantity = 2,
            unitPrice = price cheapProduct,
            totalPrice = round2 (fl (price cheapProduct * 2)), addedAt = t_added demoEnv\<rparr>])"
proof -
  let ?e50 = "\<lparr>entry_cart = demoCart\<lparr>subtotal := 500, tax := 45, cartTotal := 545,
      updatedAt := 2002\<rparr>, entry_createdAt = 1000\<rparr>"
  let ?env2 = "demoEnv\<lparr>t_get := 3000, t_added := 3001, t_priced := 3002,
      t_update := 3003, uuid := ''5f0c2a4e-91b7-4c3d-8e2f-7a6b5c4d3e2f''\<rparr>"
  let ?req = "\<lparr>req_product = demoProduct\<lparr>price := 12\<rparr>, req_quantity = 49\<rparr>"
  let ?c' = "demoCart\<lparr>subtotal := 990, tax := 3134927553114931 / 35184372088832,
      cartTotal := 2372965995066163 / 2199023255552, updatedAt := 3002\<rparr>"
  have merged: "addItem defaultConfig ?env2 demoWorld50 demoId ?req = (Inr ?c', snd demoMerged)"
    using demoMerged_result by (simp add: demoMerged_def prod_eq_iff)
  have once: "addItem defaultConfig demoEnv demoWorld demoId
      \<lparr>req_product = cheapProduct, req_quantity = 1\<rparr>
      = (Inr (demoCart\<lparr>updatedAt := 2002\<rparr>), snd cheapOnce)"
    using cheapOnce_result by (simp add: cheapOnce_def prod_eq_iff)
  have twice: "addItem defaultConfig ?env2 (snd cheapOnce) demoId
      \<lparr>req_product = cheapProduct, req_quantity = 1\<rparr>
      = (Inr (demoCart\<lparr>updatedAt := 3002\<rparr>), snd cheapTwice)"
    using cheapTwice_result by (simp add: cheapTwice_def prod_eq_iff)
  have found: "find (\<lambda>r. productId (product (objects demoWorld50 ! r))
        = productId (req_product ?req))
      (arrays demoWorld50 ! items (entry_cart ?e50)) = Some 0"
    by (simp add: demoWorld50_arrays demoWorld50_objects demoCart_eq)
  have ids: "cartId (entry_cart ?e50) = demoId" "cartId demoCart = demoId"
    by (simp_all add: demoCart_eq)
  have empty: "arrays demoWorld ! items demoCart = []" "items demoCart < length (arrays demoWorld)"
    by (simp_all add: demoWorld_eq demoCart_eq)
  note inst = merge_keeps_snapshot_price
    [where svc = defaultConfig and env = ?env2 and w = demoWorld50 and cid = demoId
       and request = ?req and c' = ?c' and w' = "snd demoMerged" and entry = ?e50 and r = 0
       and ws = demoWorld and es = "\<lparr>entry_cart = demoCart, entry_createdAt = 1000\<rparr>"
       and pa = cheapProduct and pb = cheapProduct and enva = demoEnv
       and ca = "demoCart\<lparr>updatedAt := 2002\<rparr>" and wa = "snd cheapOnce"
       and envb = ?env2 and cb = "demoCart\<lparr>updatedAt := 3002\<rparr>"
       and wb = "snd cheapTwice"]
  from inst merged found ids demoWorld50_entry
  have m: "objects (snd demoMerged) ! 0 = (objects demoWorld50 ! 0)
        \<lparr>quantity := fl (50 + 49), totalPrice := round2 (fl (10 * fl (50 + 49)))\<rparr>"
    by (simp add: demoWorld50_objects)
  from inst once twice ids empty demo_entry
  have t: "cart_items (snd cheapTwice) (demoCart\<lparr>updatedAt := 3002\<rparr>) =
          [\<lparr>itemId = uuid demoEnv, product = cheapProduct, quantity = 2,
            unitPrice = price cheapProduct,
            totalPrice = round2 (fl (price cheapProduct * 2)), addedAt = t_added demoEnv\<rparr>]"
    by simp
  have "\<exists>c'. demoMerged = (Inr c', snd demoMerged)"
    using merged by (auto simp: demoMerged_def)
  moreover have "\<exists>c1 c2. cheapOnce = (Inr c1, snd cheapOnce) \<and>
      cheapTwice = (Inr c2, snd cheapTwice) \<and>
      cart_items (snd cheapTwice) c2 =
        [\<lparr>itemId = uuid demoEnv, product = cheapProduct, quantity = 2,
          unitPrice = price cheapProduct,
          totalPrice = round2 (fl (price cheapProduct * 2)), addedAt = t_added demoEnv\<rparr>]"
    using once twice t by (auto simp: cheapOnce_def cheapTwice_def)
  ultimately show ?thesis
    using m empty demo_entry demoWorld50_entry by (simp add: demoWorld50_objects)
qed

section \<open>Invariants of reachable carts\<close>

lemma array_ok_cong: "objects w' = objects w \<Longrightarrow> array_ok w' = array_ok w"
  by (rule ext) (simp add: array_ok_def)

lemma heap_ok_cong:
  "objects w' = objects w \<Longrightarrow> arrays w' = arrays w \<Longrightarrow> heap_ok w' = heap_ok w"
  by (simp add: heap_ok_def array_ok_cong [of w' w])

lemma heap_ok_client [simp]: "heap_ok (w\<lparr>client := s\<rparr>) = heap_ok w"
  by (rule heap_ok_cong) simp_all

lemma cart_ok_client [simp]: "cart_ok (w\<lparr>client := s\<rparr>) c = cart_ok w c"
  by (simp add: cart_ok_def cart_items_def)

lemma cart_ok_of_heap:
  assumes "heap_ok w" and "items c < length (arrays w)"
  shows "cart_ok w c"
proof -
  let ?arr = "arrays w ! items c"
  from assms have "?arr \<in> set (arrays w)" by simp
  with assms(1) have arr: "array_ok w ?arr"
    by (simp add: heap_ok_def list_all_iff)
  then have d: "distinct (map (\<lambda>it. productId (product it)) (cart_items w c))"
    by (simp add: array_ok_def cart_items_def comp_def)
  have "item_ok (objects w ! r)" if "r \<in> set ?arr" for r
  proof -
    from arr that have "r < length (objects w)"
      by (simp add: array_ok_def list_all_iff)
    then have "objects w ! r \<in> set (objects w)" by simp
    with assms(1) show ?thesis
      by (simp add: heap_ok_def list_all_iff)
  qed
  then have "list_all item_ok (cart_items w c)"
    by (simp add: cart_items_def list_all_iff)
  with d show ?thesis by (simp add: cart_ok_def)
qed

lemma heap_ok_new_array:
  "heap_ok w \<Longrightarrow> heap_ok (w\<lparr>arrays := arrays w @ [[]]\<rparr>)"
  by (simp add: heap_ok_def array_ok_cong [of "w\<lparr>arrays := arrays w @ [[]]\<rparr>" w])
    (simp add: array_ok_def)

lemma heap_ok_set_item:
  assumes "heap_ok w" and "item_ok it" and "product it = product (objects w ! r)"
  shows "heap_ok (w\<lparr>objects := (objects w)[r := it]\<rparr>)"
proof -
  have prod: "product ((objects w)[r := it] ! k) = product (objects w ! k)" for k
    using assms(3) by (cases "k = r"; cases "r < length (objects w)")
      (simp_all add: list_update_beyond not_less)
  have items: "list_all item_ok ((objects w)[r := it])"
    using assms(1,2) set_update_subset_insert [of "objects w" r it]
    by (auto simp: heap_ok_def list_all_iff)
  have "array_ok (w\<lparr>objects := (objects w)[r := it]\<rparr>) = array_ok w"
    by (rule ext) (simp add: array_ok_def prod)
  with items assms(1) show ?thesis
    by (simp add: heap_ok_def)
qed

lemma distinct_remove_nth: "distinct xs \<Longrightarrow> distinct (take i xs @ drop (Suc i) xs)"
proof (induction xs arbitrary: i)
  case Nil
  then show ?case by simp
next
  case (Cons x xs)
  show ?case
  proof (cases i)
    case 0
    with Cons.prems show ?thesis by simp
  next
    case (Suc j)
    from Cons.prems have "x \<notin> set (take j xs)" and "x \<notin> set (drop (Suc j) xs)"
      by (auto dest: in_set_takeD in_set_dropD)
    with Cons.IH [of j] Cons.prems Suc show ?thesis by simp
  qed
qed

lemma heap_ok_splice:
  assumes "heap_ok w"
  shows "heap_ok (w\<lparr>arrays := (arrays w)[a := take i (arrays w ! a) @ drop (i + 1) (arrays w ! a)]\<rparr>)"
proof (cases "a < length (arrays w)")
  case False
  then have "(arrays w)[a := take i (arrays w ! a) @ drop (i + 1) (arrays w ! a)] = arrays w"
    by (simp add: list_update_beyond not_less)
  with assms show ?thesis
    using heap_ok_cong [of "w\<lparr>arrays := (arrays w)
      [a := take i (arrays w ! a) @ drop (i + 1) (arrays w ! a)]\<rparr>" w]
    by simp
next
  case True
  let ?arr = "arrays w ! a"
  let ?new = "take i ?arr @ drop (i + 1) ?arr"
  from True assms have arr: "array_ok w ?arr"
    by (simp add: heap_ok_def list_all_iff)
  have sub: "set ?new \<subseteq> set ?arr"
    using set_take_subset [of i ?arr] set_drop_subset [of "i + 1" ?arr] by auto
  have "distinct (map (\<lambda>r. productId (product (objects w ! r))) ?new)"
  proof -
    have "map (\<lambda>r. productId (product (objects w ! r))) ?new
        = take i (map (\<lambda>r. productId (product (objects w ! r))) ?arr)
          @ drop (i + 1) (map (\<lambda>r. productId (product (objects w ! r))) ?arr)"
      by (simp add: take_map drop_map)
    moreover have "distinct (take i xs @ drop (i + 1) xs)" if "distinct xs" for xs :: "string list"
      using distinct_remove_nth [OF that, of i] by simp
    ultimately show ?thesis using arr by (simp add: array_ok_def)
  qed
  with arr sub have "array_ok w ?new"
    by (auto simp: array_ok_def list_all_iff)
  moreover have "array_ok (w\<lparr>arrays := (arrays w)[a := ?new]\<rparr>) = array_ok w"
    by (rule array_ok_cong) simp
  ultimately show ?thesis
    using assms set_update_subset_insert [of "arrays w" a ?new]
    by (auto simp: heap_ok_def list_all_iff)
qed


lemma heap_ok_push:
  assumes "heap_ok w" and "item_ok it"
    and "find (\<lambda>r. productId (product (objects w ! r)) = productId (product it)) (arrays w ! a) = None"
  shows "heap_ok (w\<lparr>objects := objects w @ [it],
                    arrays := (arrays w)[a := arrays w ! a @ [length (objects w)]]\<rparr>)"
proof -
  let ?w' = "w\<lparr>objects := objects w @ [it],
                arrays := (arrays w)[a := arrays w ! a @ [length (objects w)]]\<rparr>"
  have old: "array_ok ?w' arr" if "array_ok w arr" for arr
  proof -
    from that have in_range: "\<forall>r \<in> set arr. r < length (objects w)"
      by (simp add: array_ok_def list_all_iff)
    then have m0: "map (\<lambda>r. productId (product ((objects w @ [it]) ! r))) arr
        = map (\<lambda>r. productId (product (objects w ! r))) arr"
      by (simp add: nth_append)
    from that in_range show ?thesis
      by (auto simp: array_ok_def list_all_iff m0)
  qed
  have items: "list_all item_ok (objects ?w')"
    using assms(1,2) by (simp add: heap_ok_def)
  show ?thesis
  proof (cases "a < length (arrays w)")
    case False
    then have "arrays ?w' = arrays w"
      by (simp add: list_update_beyond not_less)
    with assms(1) old items show ?thesis
      by (auto simp: heap_ok_def list_all_iff)
  next
    case True
    let ?arr = "arrays w ! a"
    from True assms(1) have arr: "array_ok w ?arr"
      by (simp add: heap_ok_def list_all_iff)
    then have in_range: "\<forall>r \<in> set ?arr. r < length (objects w)"
      by (simp add: array_ok_def list_all_iff)
    from assms(3) have fresh: "\<forall>r \<in> set ?arr. productId (product (objects w ! r)) \<noteq> productId (product it)"
      by (simp add: find_None_iff)
    have m: "map (\<lambda>r. productId (product ((objects w @ [it]) ! r))) ?arr
        = map (\<lambda>r. productId (product (objects w ! r))) ?arr"
      using in_range by (simp add: nth_append)
    have "array_ok ?w' (?arr @ [length (objects w)])"
      using arr in_range fresh by (auto simp: array_ok_def list_all_iff m)
    with assms(1) old items show ?thesis
      using set_update_subset_insert [of "arrays w" a "?arr @ [length (objects w)]"]
      by (auto simp: heap_ok_def list_all_iff)
  qed
qed

lemma store_ok_cong:
  "client w' = client w \<Longrightarrow> length (arrays w') = length (arrays w) \<Longrightarrow> store_ok w' = store_ok w"
  by (simp add: store_ok_def)

lemma store_ok_shrink:
  assumes "store_ok w"
    and "\<And>k v. carts s k = Some v \<Longrightarrow> carts (client w) k = Some v"
  shows "store_ok (w\<lparr>client := s\<rparr>)"
  using assms by (auto simp: store_ok_def)

lemma getCart_inv:
  assumes "heap_ok w" and "store_ok w"
  shows "heap_ok (snd (getCart now w cid)) \<and> store_ok (snd (getCart now w cid))"
proof (cases "getCart now w cid")
  case (Pair res w1)
  show ?thesis
  proof (cases res)
    case (Inl e)
    from getCart_Inl [OF Pair [unfolded Inl]] assms show ?thesis
      using heap_ok_cong [of w1 w] by (auto simp: Pair store_ok_def)
  next
    case (Inr c)
    from getCart_Inr [OF Pair [unfolded Inr]] assms show ?thesis
      by (simp add: Pair)
  qed
qed

lemma repriceAndUpdate_inv:
  assumes "heap_ok w" and "store_ok w" and "items cart < length (arrays w)"
  shows "heap_ok (snd (repriceAndUpdate env w cart)) \<and> store_ok (snd (repriceAndUpdate env w cart))"
proof -
  have h: "heap_ok (snd (repriceAndUpdate env w cart))"
    using assms(1) heap_ok_cong [OF repriceAndUpdate_heap, of env w cart] by simp
  have "store_ok (snd (repriceAndUpdate env w cart))"
    using assms(2,3)
    by (auto simp: repriceAndUpdate_def client_updateCart_def store_ok_def calculatePricing_fields
        split: option.splits if_splits)
  with h show ?thesis ..
qed

lemma repriceAndUpdate_items:
  "repriceAndUpdate env w cart = (Inr c', w') \<Longrightarrow> items c' = items cart \<and> arrays w' = arrays w"
  using repriceAndUpdate_Inr [of env w cart c' w'] by (simp add: calculatePricing_fields)

lemma outcome_ok_fail: "heap_ok w \<Longrightarrow> store_ok w \<Longrightarrow> outcome_ok (Inl e, w)"
  by (simp add: outcome_ok_def)

lemma outcome_ok_reprice:
  assumes "heap_ok w" and "store_ok w" and "items cart < length (arrays w)"
  shows "outcome_ok (repriceAndUpdate env w cart)"
proof -
  have "items c < length (arrays (snd (repriceAndUpdate env w cart)))"
    if "fst (repriceAndUpdate env w cart) = Inr c" for c
  proof -
    from that have "repriceAndUpdate env w cart = (Inr c, snd (repriceAndUpdate env w cart))"
      by (simp add: prod_eq_iff)
    from repriceAndUpdate_items [OF this] assms(3) show ?thesis by simp
  qed
  with repriceAndUpdate_inv [OF assms] show ?thesis
    by (simp add: outcome_ok_def)
qed

lemma getCart_outcome:
  assumes "heap_ok w" and "store_ok w"
  shows "outcome_ok (getCart now w cid)"
proof (cases "getCart now w cid")
  case (Pair res w1)
  show ?thesis
  proof (cases res)
    case (Inl e)
    with getCart_inv [OF assms, of now cid] Pair show ?thesis
      by (simp add: outcome_ok_def)
  next
    case (Inr c)
    from getCart_Inr [OF Pair [unfolded Inr]] assms Pair Inr show ?thesis
      by (auto simp: outcome_ok_def store_ok_def)
  qed
qed

lemma getCart_split:
  assumes "heap_ok w" and "store_ok w"
  obtains (fail) e w1 where "getCart now w cid = (Inl e, w1)" and "heap_ok w1" and "store_ok w1"
  | (ok) entry where "getCart now w cid = (Inr (entry_cart entry), w)"
      and "items (entry_cart entry) < length (arrays w)"
      and "carts (client w) cid = Some entry"
      and "uuidRegex_test cid" and "now \<le> expirationTime (ttlMinutes (client w)) entry"
proof (cases "getCart now w cid")
  case (Pair res w1)
  show ?thesis
  proof (cases res)
    case (Inl e)
    with getCart_inv [OF assms, of now cid] Pair fail show ?thesis by simp
  next
    case (Inr c)
    from getCart_Inr [OF Pair [unfolded Inr]] obtain entry where
      "w1 = w" "uuidRegex_test cid" "carts (client w) cid = Some entry" "entry_cart entry = c"
      "now \<le> expirationTime (ttlMinutes (client w)) entry" by blast
    with assms(2) Pair Inr ok [of entry] show ?thesis
      by (auto simp: store_ok_def)
  qed
qed

lemma addItem_outcome:
  assumes "heap_ok w" and "store_ok w"
  shows "outcome_ok (addItem svc env w cid request)"
proof (cases "validateCartId cid")
  case (Inl e)
  with assms show ?thesis by (simp add: addItem_def outcome_ok_fail)
next
  case id: (Inr u)
  show ?thesis
  proof (cases "validateQuantity svc (req_quantity request)")
    case (Inl e)
    with assms id show ?thesis by (simp add: addItem_def outcome_ok_fail)
  next
    case q: (Inr u1)
    show ?thesis
    proof (cases "validateProduct (req_product request)")
      case (Inl e)
      with assms id q show ?thesis by (simp add: addItem_def outcome_ok_fail)
    next
      case p: (Inr u2)
      from assms show ?thesis
      proof (cases rule: getCart_split [where now = "t_get env" and cid = cid])
        case (fail e w1)
        with id q p show ?thesis by (simp add: addItem_def outcome_ok_fail)
      next
        case (ok entry)
        let ?P = "\<lambda>r. productId (product (objects w ! r)) = productId (req_product request)"
        have q': "validateQuantity svc (req_quantity request) = Inr ()"
          and p': "validateProduct (req_product request) = Inr ()"
          using q p by simp_all
        note unf = addItem_unfold [OF ok(4) q' p' ok(3) ok(5)]
        show ?thesis
        proof (cases "find ?P (arrays w ! items (entry_cart entry))")
          case None
          let ?it = "\<lparr>itemId = uuid env, product = req_product request,
              quantity = req_quantity request, unitPrice = price (req_product request),
              totalPrice = round2 (fl (price (req_product request) * req_quantity request)),
              addedAt = t_added env\<rparr>"
          let ?w1 = "w\<lparr>objects := objects w @ [?it],
              arrays := (arrays w)
                [items (entry_cart entry) :=
                   arrays w ! items (entry_cart entry) @ [length (objects w)]]\<rparr>"
          have "item_ok ?it" by (simp add: item_ok_def)
          with assms(1) None have h: "heap_ok ?w1"
            using heap_ok_push [of w ?it "items (entry_cart entry)"] by simp
          have s: "store_ok ?w1"
            using assms(2) store_ok_cong [of ?w1 w] by simp
          have "addItem svc env w cid request = repriceAndUpdate env ?w1 (entry_cart entry)"
            unfolding unf None by simp
          with outcome_ok_reprice [OF h s, of "entry_cart entry" env] ok(2)
          show ?thesis by simp
        next
          case (Some r)
          let ?q = "fl (quantity (objects w ! r) + req_quantity request)"
          let ?it = "(objects w ! r)\<lparr>quantity := ?q,
              totalPrice := round2 (fl (unitPrice (objects w ! r) * ?q))\<rparr>"
          let ?w1 = "w\<lparr>objects := (objects w)[r := ?it]\<rparr>"
          have "item_ok ?it" by (simp add: item_ok_def)
          with assms(1) have h: "heap_ok ?w1"
            using heap_ok_set_item [of w ?it r] by simp
          have s: "store_ok ?w1"
            using assms(2) store_ok_cong [of ?w1 w] by simp
          have "addItem svc env w cid request =
              (if maxQty svc < ?q
               then (Inl (ValidationError
                       (TotalQuantityWouldExceed (name (req_product request)) (maxQty svc))), w)
               else repriceAndUpdate env ?w1 (entry_cart entry))"
            unfolding unf Some by simp
          with outcome_ok_reprice [OF h s, of "entry_cart entry" env] ok(2) assms
          show ?thesis by (simp add: outcome_ok_fail)
        qed
      qed
    qed
  qed
qed


lemma removeItem_outcome:
  assumes "heap_ok w" and "store_ok w"
  shows "outcome_ok (removeItem env w cid iid)"
proof (cases "validateCartId cid")
  case (Inl e)
  with assms show ?thesis by (simp add: removeItem_def outcome_ok_fail)
next
  case id: (Inr u)
  from assms show ?thesis
  proof (cases rule: getCart_split [where now = "t_get env" and cid = cid])
    case (fail e w1)
    with id show ?thesis by (simp add: removeItem_def outcome_ok_fail)
  next
    case (ok entry)
    let ?arr = "arrays w ! items (entry_cart entry)"
    let ?idx = "findIndex (\<lambda>r. itemId (objects w ! r) = iid) ?arr"
    let ?w1 = "w\<lparr>arrays := (arrays w)
        [items (entry_cart entry) := take (nat ?idx) ?arr @ drop (nat ?idx + 1) ?arr]\<rparr>"
    have unf: "removeItem env w cid iid =
        (if ?idx = - 1 then (Inl (ResourceNotFoundError ''Item'' iid), w)
         else repriceAndUpdate env ?w1 (entry_cart entry))"
      using id ok(1) by (simp add: removeItem_def Let_def)
    have h: "heap_ok ?w1"
      using heap_ok_splice [OF assms(1)] .
    have s: "store_ok ?w1"
      using assms(2) store_ok_cong [of ?w1 w] by simp
    from outcome_ok_reprice [OF h s, of "entry_cart entry" env] ok(2) assms
    show ?thesis unfolding unf by (simp add: outcome_ok_fail)
  qed
qed

lemma updateItemQuantity_outcome:
  assumes "heap_ok w" and "store_ok w"
  shows "outcome_ok (updateItemQuantity svc env w cid iid qty)"
proof (cases "validateCartId cid")
  case (Inl e)
  with assms show ?thesis by (simp add: updateItemQuantity_def outcome_ok_fail)
next
  case id: (Inr u)
  show ?thesis
  proof (cases "validateQuantity svc qty")
    case (Inl e)
    with assms id show ?thesis by (simp add: updateItemQuantity_def outcome_ok_fail)
  next
    case q: (Inr u1)
    from assms show ?thesis
    proof (cases rule: getCart_split [where now = "t_get env" and cid = cid])
      case (fail e w1)
      with id q show ?thesis by (simp add: updateItemQuantity_def outcome_ok_fail)
    next
      case (ok entry)
      show ?thesis
      proof (cases "find (\<lambda>r. itemId (objects w ! r) = iid) (arrays w ! items (entry_cart entry))")
        case None
        with id q ok(1) assms show ?thesis
          by (simp add: updateItemQuantity_def outcome_ok_fail)
      next
        case (Some r)
        let ?it = "(objects w ! r)\<lparr>quantity := qty,
            totalPrice := round2 (fl (unitPrice (objects w ! r) * qty))\<rparr>"
        let ?w1 = "w\<lparr>objects := (objects w)[r := ?it]\<rparr>"
        have unf: "updateItemQuantity svc env w cid iid qty
            = repriceAndUpdate env ?w1 (entry_cart entry)"
          using id q ok(1) Some by (simp add: updateItemQuantity_def Let_def round2_def)
        have "item_ok ?it" by (simp add: item_ok_def)
        with assms(1) have h: "heap_ok ?w1"
          using heap_ok_set_item [of w ?it r] by simp
        have s: "store_ok ?w1"
          using assms(2) store_ok_cong [of ?w1 w] by simp
        from outcome_ok_reprice [OF h s, of "entry_cart entry" env] ok(2)
        show ?thesis unfolding unf by simp
      qed
    qed
  qed
qed

lemma clearCart_outcome:
  assumes "heap_ok w" and "store_ok w"
  shows "outcome_ok (clearCart env w cid)"
proof (cases "validateCartId cid")
  case (Inl e)
  with assms show ?thesis by (simp add: clearCart_def outcome_ok_fail)
next
  case id: (Inr u)
  from assms show ?thesis
  proof (cases rule: getCart_split [where now = "t_get env" and cid = cid])
    case (fail e w1)
    with id show ?thesis by (simp add: clearCart_def outcome_ok_fail)
  next
    case (ok entry)
    let ?w1 = "w\<lparr>arrays := arrays w @ [[]]\<rparr>"
    have unf: "clearCart env w cid
        = repriceAndUpdate env ?w1 ((entry_cart entry)\<lparr>items := length (arrays w)\<rparr>)"
      using id ok(1) by (simp add: clearCart_def)
    have h: "heap_ok ?w1"
      using heap_ok_new_array [OF assms(1)] .
    have s: "store_ok ?w1"
      using assms(2) by (auto simp: store_ok_def intro: less_SucI)
    from outcome_ok_reprice [OF h s, of "(entry_cart entry)\<lparr>items := length (arrays w)\<rparr>" env]
    show ?thesis unfolding unf by simp
  qed
qed

lemma createCart_outcome:
  assumes "heap_ok w" and "store_ok w"
  shows "heap_ok (snd (createCart svc now newId md w)) \<and>
         store_ok (snd (createCart svc now newId md w)) \<and>
         items (fst (createCart svc now newId md w))
           < length (arrays (snd (createCart svc now newId md w)))"
proof -
  from heap_ok_new_array [OF assms(1)]
  have "heap_ok (snd (createCart svc now newId md w))"
    using heap_ok_cong [of "snd (createCart svc now newId md w)" "w\<lparr>arrays := arrays w @ [[]]\<rparr>"]
    by (simp add: createCart_def client_createCart_def Let_def)
  moreover have "store_ok (snd (createCart svc now newId md w))"
    using assms(2)
    by (auto simp: createCart_def client_createCart_def Let_def store_ok_def intro: less_SucI)
  moreover have "items (fst (createCart svc now newId md w))
      < length (arrays (snd (createCart svc now newId md w)))"
    by (simp add: createCart_def client_createCart_def Let_def)
  ultimately show ?thesis by blast
qed

lemma deleteCart_inv:
  assumes "heap_ok w" and "store_ok w"
  shows "heap_ok (snd (deleteCart w cid)) \<and> store_ok (snd (deleteCart w cid))"
  using assms
  by (cases "validateCartId cid")
    (auto simp: deleteCart_def client_deleteCart_def store_ok_def)

lemma cleanup_inv:
  assumes "heap_ok w" and "store_ok w"
  shows "heap_ok (w\<lparr>client := cleanupExpiredCarts now (client w)\<rparr>) \<and>
         store_ok (w\<lparr>client := cleanupExpiredCarts now (client w)\<rparr>)"
  using assms
  by (auto simp: cleanupExpiredCarts_def store_ok_def split: option.splits if_splits)

lemma exec_inv:
  assumes "heap_ok w" and "store_ok w"
  shows "heap_ok (snd (exec svc w op)) \<and> store_ok (snd (exec svc w op)) \<and>
         (\<forall>c. fst (exec svc w op) = Inr (Some c)
              \<longrightarrow> items c < length (arrays (snd (exec svc w op))))"
proof (cases op)
  case (CreateCart now newId md)
  with createCart_outcome [OF assms, of svc now newId md] show ?thesis
    by (auto simp: split_beta)
next
  case (GetCart now cid)
  with getCart_outcome [OF assms, of now cid] show ?thesis
    by (cases "fst (getCart now w cid)") (auto simp: split_beta outcome_ok_def)
next
  case (AddItem env cid request)
  with addItem_outcome [OF assms, of svc env cid request] show ?thesis
    by (cases "fst (addItem svc env w cid request)") (auto simp: split_beta outcome_ok_def)
next
  case (RemoveItem env cid iid)
  with removeItem_outcome [OF assms, of env cid iid] show ?thesis
    by (cases "fst (removeItem env w cid iid)") (auto simp: split_beta outcome_ok_def)
next
  case (UpdateItemQuantity env cid iid qty)
  with updateItemQuantity_outcome [OF assms, of svc env cid iid qty] show ?thesis
    by (cases "fst (updateItemQuantity svc env w cid iid qty)")
      (auto simp: split_beta outcome_ok_def)
next
  case (ClearCart env cid)
  with clearCart_outcome [OF assms, of env cid] show ?thesis
    by (cases "fst (clearCart env w cid)") (auto simp: split_beta outcome_ok_def)
next
  case (DeleteCart cid)
  with deleteCart_inv [OF assms, of cid] show ?thesis
    by (cases "fst (deleteCart w cid)") (auto simp: split_beta)
next
  case (Cleanup now)
  with cleanup_inv [OF assms, of now] show ?thesis
    by simp
qed

lemma initialWorld_inv: "heap_ok (initialWorld ttl) \<and> store_ok (initialWorld ttl)"
  by (simp add: heap_ok_def store_ok_def initialWorld_def)

lemma runOps_inv:
  "heap_ok w \<Longrightarrow> store_ok w \<Longrightarrow> heap_ok (runOps svc ops w) \<and> store_ok (runOps svc ops w)"
proof (induction ops arbitrary: w)
  case Nil
  then show ?case by (simp add: runOps_def)
next
  case (Cons op ops)
  have "runOps svc (op # ops) w = runOps svc ops (snd (exec svc w op))"
    by (simp add: runOps_def)
  with Cons.IH [of "snd (exec svc w op)"] exec_inv [OF Cons.prems, of svc op]
  show ?case by simp
qed

text \<open>
  Claim C7. Start from a fresh process and apply any list of calls (\<open>createCart\<close>,
  \<open>getCart\<close>, \<open>addItem\<close>, \<open>removeItem\<close>, \<open>updateItemQuantity\<close>, \<open>clearCart\<close>,
  \<open>deleteCart\<close>, the clean-up), with any arguments, clock readings and identifiers,
  successful or not. Then every cart the store holds, and every cart a further call
  returns, has pairwise different product ids among its items, and every one of its items
  has \<open>totalPrice = round2 (unitPrice * quantity)\<close>.
\<close>

theorem reachable_carts_consistent:
  "(carts (client (runOps svc ops (initialWorld ttl))) cid = Some e \<longrightarrow>
      cart_ok (runOps svc ops (initialWorld ttl)) (entry_cart e))
   \<and> (exec svc (runOps svc ops (initialWorld ttl)) op = (Inr (Some c), w') \<longrightarrow> cart_ok w' c)"
proof -
  let ?w = "runOps svc ops (initialWorld ttl)"
  from runOps_inv [of "initialWorld ttl" svc ops] initialWorld_inv [of ttl]
  have h: "heap_ok ?w" and s: "store_ok ?w" by simp_all
  have stored: "cart_ok ?w (entry_cart e)" if "carts (client ?w) cid = Some e"
    using that s cart_ok_of_heap [OF h, of "entry_cart e"] by (auto simp: store_ok_def)
  have returned: "cart_ok w' c" if "exec svc ?w op = (Inr (Some c), w')"
    using exec_inv [OF h s, of svc op] that cart_ok_of_heap [of w' c] by simp
  from stored returned show ?thesis by blast
qed


lemma runOps_demoRun: "runOps defaultConfig demoRun (initialWorld 5) = demoWorld50"
  by (simp add: runOps_def demoRun_def demoWorld50_def demoWorld_def split_beta)

lemma demo_get50:
  "exec defaultConfig demoWorld50 (GetCart 2500 demoId)
     = (Inr (Some (demoCart\<lparr>subtotal := 500, tax := 45, cartTotal := 545, updatedAt := 2002\<rparr>)),
        demoWorld50)"
  using getCart_live [OF demoWorld50_entry demoId_ok, of 2500]
  by (simp add: demoWorld50_ttl demo_deadline)

theorem reachable_carts_consistent_witness:
  "carts (client (runOps defaultConfig demoRun (initialWorld 5))) demoId
     = Some \<lparr>entry_cart = demoCart\<lparr>subtotal := 500, tax := 45, cartTotal := 545, updatedAt := 2002\<rparr>,
             entry_createdAt = 1000\<rparr>
   \<and> cart_ok (runOps defaultConfig demoRun (initialWorld 5))
        (demoCart\<lparr>subtotal := 500, tax := 45, cartTotal := 545, updatedAt := 2002\<rparr>)
   \<and> exec defaultConfig (runOps defaultConfig demoRun (initialWorld 5)) (GetCart 2500 demoId)
        = (Inr (Some (demoCart\<lparr>subtotal := 500, tax := 45, cartTotal := 545, updatedAt := 2002\<rparr>)),
           demoWorld50)
   \<and> cart_ok demoWorld50
        (demoCart\<lparr>subtotal := 500, tax := 45, cartTotal := 545, updatedAt := 2002\<rparr>)"
  using reachable_carts_consistent
    [of defaultConfig demoRun 5 demoId
      "\<lparr>entry_cart = demoCart\<lparr>subtotal := 500, tax := 45, cartTotal := 545, updatedAt := 2002\<rparr>,
        entry_createdAt = 1000\<rparr>"
      "GetCart 2500 demoId"
      "demoCart\<lparr>subtotal := 500, tax := 45, cartTotal := 545, updatedAt := 2002\<rparr>"
      demoWorld50]
    demoWorld50_entry demo_get50
  by (simp add: runOps_demoRun)

section \<open>The copy handed out by the store\<close>

text \<open>
  The copy is not deep. On the sample cart with fifty units: a read returns the cart,
  whose only item has quantity 50; the caller assigns \<^verbatim>\<open>cart.items[0].quantity = 1000\<close>,
  which leaves the store's map as it is (nothing is written back); the next read returns
  the same cart value, and its item now has quantity 1000.
\<close>

theorem get_shares_items_with_store:
  "client_getCart 2500 (client demoWorld50) demoId
     = (Inr (Some (demoCart\<lparr>subtotal := 500, tax := 45, cartTotal := 545, updatedAt := 2002\<rparr>)),
        client demoWorld50)
   \<and> map quantity (cart_items demoWorld50
          (demoCart\<lparr>subtotal := 500, tax := 45, cartTotal := 545, updatedAt := 2002\<rparr>)) = [50]
   \<and> client (caller_setQuantity demoWorld50
          (demoCart\<lparr>subtotal := 500, tax := 45, cartTotal := 545, updatedAt := 2002\<rparr>) 0 1000)
       = client demoWorld50
   \<and> client_getCart 2600 (client demoWorld50) demoId
     = (Inr (Some (demoCart\<lparr>subtotal := 500, tax := 45, cartTotal := 545, updatedAt := 2002\<rparr>)),
        client demoWorld50)
   \<and> map quantity (cart_items
          (caller_setQuantity demoWorld50
             (demoCart\<lparr>subtotal := 500, tax := 45, cartTotal := 545, updatedAt := 2002\<rparr>) 0 1000)
          (demoCart\<lparr>subtotal := 500, tax := 45, cartTotal := 545, updatedAt := 2002\<rparr>)) = [1000]"
  by (simp add: client_getCart_def demoWorld50_entry demoWorld50_ttl isExpired_def demo_deadline
      caller_setQuantity_def cart_items_def demoWorld50_arrays demoWorld50_objects demoCart_eq)

text \<open>
  Claim C9, as the code has it. The store's \<open>getCart\<close> returns
  \<^verbatim>\<open>{ ...entry.cart }\<close>, a new cart object with the stored cart's own fields. For a
  live entry whose array and item exist: the read returns the stored fields and leaves
  the store alone; an assignment to a field of the returned object, such as
  \<^verbatim>\<open>cart.items = []\<close>, is not observable in a later read, which returns the same cart
  with the same items; but the items array and the item objects are the store's own, so
  \<^verbatim>\<open>cart.items[i].quantity = q\<close> on the returned cart is observed by the next read
  without any write to the store.
\<close>

theorem get_returns_shallow_copy:
  assumes "carts (client w) cid = Some entry"
    and "now \<le> expirationTime (ttlMinutes (client w)) entry"
    and "items (entry_cart entry) < length (arrays w)"
    and "i < length (arrays w ! items (entry_cart entry))"
    and "arrays w ! items (entry_cart entry) ! i < length (objects w)"
  shows "client_getCart now (client w) cid = (Inr (Some (entry_cart entry)), client w)
       \<and> client_getCart now (client (caller_replaceItems w)) cid
           = (Inr (Some (entry_cart entry)), client w)
       \<and> cart_items (caller_replaceItems w) (entry_cart entry) = cart_items w (entry_cart entry)
       \<and> client_getCart now (client (caller_setQuantity w (entry_cart entry) i q)) cid
           = (Inr (Some (entry_cart entry)), client w)
       \<and> quantity (cart_items (caller_setQuantity w (entry_cart entry) i q) (entry_cart entry) ! i) = q"
  using assms
  by (simp add: client_getCart_def isExpired_def caller_replaceItems_def caller_setQuantity_def
      cart_items_def nth_append Let_def)

theorem get_returns_shallow_copy_witness:
  "carts (client demoWorld50) demoId
     = Some \<lparr>entry_cart = demoCart\<lparr>subtotal := 500, tax := 45, cartTotal := 545, updatedAt := 2002\<rparr>,
             entry_createdAt = 1000\<rparr>
   \<and> client_getCart 2600
        (client (caller_setQuantity demoWorld50
           (demoCart\<lparr>subtotal := 500, tax := 45, cartTotal := 545, updatedAt := 2002\<rparr>) 0 1000))
        demoId
       = (Inr (Some (demoCart\<lparr>subtotal := 500, tax := 45, cartTotal := 545, updatedAt := 2002\<rparr>)),
          client demoWorld50)
   \<and> quantity (cart_items
          (caller_setQuantity demoWorld50
             (demoCart\<lparr>subtotal := 500, tax := 45, cartTotal := 545, updatedAt := 2002\<rparr>) 0 1000)
          (demoCart\<lparr>subtotal := 500, tax := 45, cartTotal := 545, updatedAt := 2002\<rparr>) ! 0) = 1000
   \<and> cart_items (caller_replaceItems demoWorld50)
          (demoCart\<lparr>subtotal := 500, tax := 45, cartTotal := 545, updatedAt := 2002\<rparr>)
       = cart_items demoWorld50
          (demoCart\<lparr>subtotal := 500, tax := 45, cartTotal := 545, updatedAt := 2002\<rparr>)"
proof -
  let ?e = "\<lparr>entry_cart = demoCart\<lparr>subtotal := 500, tax := 45, cartTotal := 545, updatedAt := 2002\<rparr>,
             entry_createdAt = 1000\<rparr>"
  have live: "2600 \<le> expirationTime (ttlMinutes (client demoWorld50)) ?e"
    by (simp add: demoWorld50_ttl demo_deadline)
  have a: "items (entry_cart ?e) < length (arrays demoWorld50)"
    and i: "0 < length (arrays demoWorld50 ! items (entry_cart ?e))"
    and r: "arrays demoWorld50 ! items (entry_cart ?e) ! 0 < length (objects demoWorld50)"
    by (simp_all add: demoWorld50_arrays demoWorld50_objects demoCart_eq)
  from get_returns_shallow_copy [OF demoWorld50_entry live a i r, of 1000] demoWorld50_entry
  show ?thesis by simp
qed

end
